theory Spec2Isabelle
  imports Complex_Main "HOL-Library.Char_ord" "HOL-Library.List_Lexorder"
begin

section \<open>Values exchanged with the HTTP layer\<close>

text \<open>
  The route handlers answer with \<^verbatim>\<open>res.status(n).json(obj)\<close>. A response is the status
  code and the JSON value that was sent; \<^verbatim>\<open>res.json(obj)\<close> alone sends status 200.
  JSON objects are association lists, in the order in which the source writes the keys.
  Ids, counts and timestamps stay below \<open>2 ^ 53\<close>, where JavaScript numbers hold
  integers exactly, so they are modelled by \<^typ>\<open>int\<close> and \<^typ>\<open>nat\<close>; a timestamp is
  represented by a number. The one place where larger numbers arise, the offset of a
  list query, is modelled with JavaScript's rounding (section Pagination).
\<close>

datatype json =
    JNull
  | JBool bool
  | JNum int
  | JStr string
  | JArr "json list"
  | JObj "(string \<times> json) list"

record response =
  status :: nat
  body :: json

definition send :: "nat \<Rightarrow> json \<Rightarrow> response" where
  "send code obj = \<lparr>status = code, body = obj\<rparr>"

definition fail_message :: "nat \<Rightarrow> string \<Rightarrow> response" where
  \<comment> \<open>\<^verbatim>\<open>res.status(code).json({ success: false, message })\<close>\<close>
  "fail_message code msg = send code (JObj [(''success'', JBool False), (''message'', JStr msg)])"

definition ok_message :: "string \<Rightarrow> response" where
  \<comment> \<open>\<^verbatim>\<open>res.json({ success: true, message })\<close>\<close>
  "ok_message msg = send 200 (JObj [(''success'', JBool True), (''message'', JStr msg)])"

definition server_error :: response where
  \<comment> \<open>the \<^verbatim>\<open>catch (err)\<close> branch every handler ends with\<close>
  "server_error = fail_message 500 ''Server error''"

definition internal_server_error :: response where
  \<comment> \<open>the error-handling middleware of server.js, outside development mode\<close>
  "internal_server_error =
     send 500 (JObj [(''success'', JBool False), (''message'', JStr ''Internal Server Error'')])"

text \<open>Looking a key up in an object, and asking whether a key occurs anywhere in a value.\<close>

fun member_of :: "string \<Rightarrow> json \<Rightarrow> json option" where
  "member_of k (JObj kvs) = map_of kvs k"
| "member_of k _ = None"

fun has_key :: "string \<Rightarrow> json \<Rightarrow> bool"
  and has_key_list :: "string \<Rightarrow> json list \<Rightarrow> bool"
  and has_key_fields :: "string \<Rightarrow> (string \<times> json) list \<Rightarrow> bool" where
  "has_key k JNull = False"
| "has_key k (JBool b) = False"
| "has_key k (JNum n) = False"
| "has_key k (JStr s) = False"
| "has_key k (JArr xs) = has_key_list k xs"
| "has_key k (JObj kvs) = has_key_fields k kvs"
| "has_key_list k [] = False"
| "has_key_list k (x # xs) = (has_key k x \<or> has_key_list k xs)"
| "has_key_fields k [] = False"
| "has_key_fields k (kv # kvs) = (fst kv = k \<or> has_key k (snd kv) \<or> has_key_fields k kvs)"

text \<open>JavaScript's \<^verbatim>\<open>a || b\<close> on an optional string: absent and empty are both falsy.\<close>

definition truthy :: "string option \<Rightarrow> bool" where
  "truthy x = (case x of None \<Rightarrow> False | Some v \<Rightarrow> v \<noteq> [])"

definition or_else :: "string option \<Rightarrow> string \<Rightarrow> string" where
  "or_else x d = (case x of None \<Rightarrow> d | Some v \<Rightarrow> if v = [] then d else v)"

definition or_else_opt :: "string option \<Rightarrow> string option \<Rightarrow> string option" where
  "or_else_opt x d = (case x of None \<Rightarrow> d | Some v \<Rightarrow> if v = [] then d else Some v)"

text \<open>\<^verbatim>\<open>str.replace(pat, rep)\<close> with a string pattern replaces the first occurrence only.\<close>

fun replace_first :: "string \<Rightarrow> string \<Rightarrow> string \<Rightarrow> string" where
  "replace_first pat rep [] = (if pat = [] then rep else [])"
| "replace_first pat rep (c # cs) =
     (if take (length pat) (c # cs) = pat then rep @ drop (length pat) (c # cs)
      else c # replace_first pat rep cs)"

text \<open>The decimal numeral a template literal writes for a count.\<close>

definition digit_char :: "nat \<Rightarrow> char" where
  \<comment> \<open>only ever applied to \<open>n < 10\<close>\<close>
  "digit_char n = ''0123456789'' ! n"

fun string_of_nat :: "nat \<Rightarrow> string" where
  "string_of_nat n =
     (if n < 10 then [digit_char n] else string_of_nat (n div 10) @ [digit_char (n mod 10)])"

declare string_of_nat.simps [simp del]

text \<open>Reading a decimal numeral back, to say what a written count denotes.\<close>

definition digit_value :: "char \<Rightarrow> nat" where
  "digit_value c = of_char c - 48"

definition nat_of_string :: "string \<Rightarrow> nat" where
  "nat_of_string cs = foldl (\<lambda>a c. 10 * a + digit_value c) 0 cs"

section \<open>Credential verifier and authorization gate (middleware/auth.js)\<close>

text \<open>
  A token carries \<^verbatim>\<open>{ user: { id, username, email, is_admin } }\<close>. The library call
  \<^verbatim>\<open>jwt.verify(token, process.env.JWT_SECRET)\<close> is a parameter \<open>jwt_verify\<close> of the
  model: it answers \<open>None\<close> where the library throws (bad signature, expired, malformed)
  and the decoded payload otherwise. \<^verbatim>\<open>jwt.sign(payload, secret, options)\<close> is the
  parameter \<open>jwt_sign\<close>.
\<close>

record claims =
  c_id :: int
  c_username :: string
  c_email :: string
  c_is_admin :: bool

datatype jwt_payload = Payload (payload_user: "claims option")

record request =
  authorization :: "string option"  \<comment> \<open>\<^verbatim>\<open>req.header('Authorization')\<close>\<close>
  req_user :: "claims option"  \<comment> \<open>\<^verbatim>\<open>req.user\<close>, undefined until \<open>auth\<close> sets it\<close>

datatype middleware_result = Respond response | Next request

definition bearer_token :: "request \<Rightarrow> string option" where
  \<comment> \<open>\<^verbatim>\<open>req.header('Authorization')?.replace('Bearer ', '')\<close>\<close>
  "bearer_token req = map_option (replace_first ''Bearer '' []) (authorization req)"

definition auth :: "(string \<Rightarrow> jwt_payload option) \<Rightarrow> request \<Rightarrow> middleware_result" where
  "auth jwt_verify req =
     (case bearer_token req of
        None \<Rightarrow> Respond (fail_message 401 ''No token, authorization denied'')
      | Some token \<Rightarrow>
          if token = [] then Respond (fail_message 401 ''No token, authorization denied'')
          else (case jwt_verify token of
                  None \<Rightarrow> Respond (fail_message 401 ''Token is not valid'')
                | Some decoded \<Rightarrow> Next (req\<lparr>req_user := payload_user decoded\<rparr>)))"

definition admin :: "request \<Rightarrow> middleware_result" where
  \<comment> \<open>reading \<^verbatim>\<open>req.user.is_admin\<close> of an undefined \<^verbatim>\<open>req.user\<close> throws; Express
      hands the exception to the error-handling middleware\<close>
  "admin req =
     (case req_user req of
        None \<Rightarrow> Respond internal_server_error
      | Some u \<Rightarrow>
          if \<not> c_is_admin u
          then Respond (fail_message 403 ''Access denied. Admin privileges required.'')
          else Next req)"

definition incoming :: "string option \<Rightarrow> request" where
  \<comment> \<open>a request as it reaches the router: nothing has set \<^verbatim>\<open>req.user\<close> yet\<close>
  "incoming hdr = \<lparr>authorization = hdr, req_user = None\<rparr>"

fun run_middleware :: "(request \<Rightarrow> middleware_result) list \<Rightarrow> request \<Rightarrow> middleware_result" where
  "run_middleware [] req = Next req"
| "run_middleware (m # ms) req =
     (case m req of Respond r \<Rightarrow> Respond r | Next req' \<Rightarrow> run_middleware ms req')"

section \<open>The datastore\<close>

text \<open>
  The handlers reach the relational store through the query interface of the ORM
  (\<^verbatim>\<open>findByPk\<close>, \<^verbatim>\<open>findOne\<close>, \<^verbatim>\<open>findAll\<close>, \<^verbatim>\<open>count\<close>, \<^verbatim>\<open>findAndCountAll\<close>,
  \<^verbatim>\<open>create\<close>, \<^verbatim>\<open>update\<close>, \<^verbatim>\<open>destroy\<close>). The store is modelled as one list of rows per
  table, a counter per auto-incrementing key, and the set of paths that exist under the
  upload directory. Each ORM call is the list operation its documentation describes.

  A call that the ORM or the store refuses throws, and the \<^verbatim>\<open>catch\<close> branch of the handler
  answers 500 "Server error" with the rows as they were. The refusals that the list
  routes and the contact route can provoke are part of the model: an \<^verbatim>\<open>ORDER BY\<close> or a
  \<^verbatim>\<open>WHERE\<close> on a column that the model does not declare, a \<^verbatim>\<open>LIMIT\<close> or \<^verbatim>\<open>OFFSET\<close> that is
  negative or not a 64-bit integer, a value that fails a validator of the model or does
  not fit its \<^verbatim>\<open>STRING(n)\<close> column. A lost connection is not modelled.

  The rows of the Product and ContactMessage models carry the attributes that their
  model files declare. Both files set \<^verbatim>\<open>timestamps: false\<close> and declare \<^verbatim>\<open>created_at\<close>:
  neither model has an attribute \<^verbatim>\<open>createdAt\<close>. The rows of the User, Category and
  ProductImage models carry the attributes that the handlers and the seed script read
  and write. The hook that hashes a password before it is stored and the method
  \<^verbatim>\<open>comparePassword\<close> belong to the User model: they are the parameters \<open>hash\<close> and
  \<open>comparePassword\<close>. Primary keys are unique; where a statement needs that, it says so.
\<close>

record user =
  u_id :: int
  u_username :: string
  u_email :: string
  u_password :: string
  u_is_admin :: bool
  u_createdAt :: nat

record category =
  cat_id :: int
  cat_name :: string
  cat_slug :: string
  cat_description :: "string option"
  cat_image_url :: "string option"

record product =
  p_id :: int
  p_name :: string
  p_slug :: string
  p_model_number :: "string option"
  p_description :: "string option"
  p_features :: "string option"
  p_specifications :: "json option"
  p_price :: "string option"
  p_category_id :: "int option"
  p_created_at :: nat
  p_updated_at :: nat

record product_image =
  img_id :: int
  img_product_id :: int
  img_image_url :: string
  img_is_primary :: bool

text \<open>
  A contact message has the columns of models/ContactMessage.js: the model declares
  neither \<open>subject\<close> nor \<open>status\<close>, and what the submit handler passes under those keys
  is not written.
\<close>

record contact_message =
  m_id :: int
  m_name :: string
  m_email :: string
  m_phone :: "string option"
  m_message :: string
  m_created_at :: nat
  m_is_read :: bool

record store =
  users :: "user list"
  user_seq :: int
  categories :: "category list"
  products :: "product list"
  images :: "product_image list"
  image_seq :: int
  messages :: "contact_message list"
  message_seq :: int
  files :: "string set"

definition newest_first :: "('a \<Rightarrow> nat) \<Rightarrow> 'a list \<Rightarrow> 'a list" where
  \<comment> \<open>\<^verbatim>\<open>order: [['createdAt', 'DESC']]\<close>\<close>
  "newest_first created rows = rev (sort_key created rows)"

definition json_opt :: "string option \<Rightarrow> json" where
  "json_opt x = (case x of None \<Rightarrow> JNull | Some v \<Rightarrow> JStr v)"

definition exclude :: "string list \<Rightarrow> (string \<times> json) list \<Rightarrow> (string \<times> json) list" where
  \<comment> \<open>\<^verbatim>\<open>attributes: { exclude: [...] }\<close>, and the rest pattern \<^verbatim>\<open>{ password: _, ...rest }\<close>\<close>
  "exclude ks obj = filter (\<lambda>kv. fst kv \<notin> set ks) obj"

section \<open>Input validation (express-validator)\<close>

text \<open>
  A body field is absent or a string. \<^verbatim>\<open>notEmpty()\<close> fails on an absent field and on the
  empty string; \<^verbatim>\<open>isLength({ min })\<close> measures the string, an absent field having length
  0; \<^verbatim>\<open>isEmail()\<close> is the library's predicate, the parameter \<open>isEmail\<close>. An entry of
  \<^verbatim>\<open>errors.array()\<close> is represented by the field it is about and its message.
\<close>

definition field_value :: "string option \<Rightarrow> string" where
  "field_value x = (case x of None \<Rightarrow> [] | Some v \<Rightarrow> v)"

definition check :: "bool \<Rightarrow> string \<Rightarrow> string \<Rightarrow> (string \<times> string) list" where
  "check passed field msg = (if passed then [] else [(field, msg)])"

definition validation_failed :: "(string \<times> string) list \<Rightarrow> response" where
  \<comment> \<open>\<^verbatim>\<open>res.status(400).json({ success: false, errors: errors.array() })\<close>\<close>
  "validation_failed errs =
     send 400 (JObj [(''success'', JBool False),
       (''errors'', JArr (map (\<lambda>e. JObj [(''msg'', JStr (snd e)), (''param'', JStr (fst e))]) errs))])"

section \<open>User administration (routes/userRoutes.js)\<close>

definition user_toJSON :: "user \<Rightarrow> (string \<times> json) list" where
  "user_toJSON u =
     [(''id'', JNum (u_id u)), (''username'', JStr (u_username u)), (''email'', JStr (u_email u)),
      (''password'', JStr (u_password u)), (''is_admin'', JBool (u_is_admin u)),
      (''createdAt'', JNum (int (u_createdAt u)))]"

definition user_findByPk :: "store \<Rightarrow> int \<Rightarrow> user option" where
  "user_findByPk s i = find (\<lambda>u. u_id u = i) (users s)"

definition user_findOne_username :: "store \<Rightarrow> string \<Rightarrow> user option" where
  "user_findOne_username s n = find (\<lambda>u. u_username u = n) (users s)"

definition user_findOne_email :: "store \<Rightarrow> string \<Rightarrow> user option" where
  "user_findOne_email s e = find (\<lambda>u. u_email u = e) (users s)"

definition adminCount :: "store \<Rightarrow> nat" where
  \<comment> \<open>\<^verbatim>\<open>User.count({ where: { is_admin: true } })\<close>\<close>
  "adminCount s = length (filter u_is_admin (users s))"


definition user_save :: "user \<Rightarrow> store \<Rightarrow> store" where
  \<comment> \<open>\<^verbatim>\<open>user.update(values)\<close>: the row with the instance's key takes the new values\<close>
  "user_save u' s = s\<lparr>users := map (\<lambda>u. if u_id u = u_id u' then u' else u) (users s)\<rparr>"

text \<open>GET /api/users\<close>

definition list_users_handler :: "store \<Rightarrow> response" where
  "list_users_handler s =
     send 200 (JObj [(''success'', JBool True),
       (''users'', JArr (map (\<lambda>u. JObj (exclude [''password''] (user_toJSON u)))
                          (newest_first u_createdAt (users s))))])"

definition list_users :: "(string \<Rightarrow> jwt_payload option) \<Rightarrow> string option \<Rightarrow> store \<Rightarrow> response" where
  "list_users jwt_verify hdr s =
     (case run_middleware [auth jwt_verify, admin] (incoming hdr) of
        Respond r \<Rightarrow> r
      | Next req \<Rightarrow> list_users_handler s)"

text \<open>GET /api/users/:id\<close>

definition get_user_handler :: "int \<Rightarrow> store \<Rightarrow> response" where
  "get_user_handler i s =
     (case user_findByPk s i of
        None \<Rightarrow> fail_message 404 ''User not found''
      | Some u \<Rightarrow>
          send 200 (JObj [(''success'', JBool True),
            (''user'', JObj (exclude [''password''] (user_toJSON u)))]))"

definition get_user ::
  "(string \<Rightarrow> jwt_payload option) \<Rightarrow> string option \<Rightarrow> int \<Rightarrow> store \<Rightarrow> response" where
  "get_user jwt_verify hdr i s =
     (case run_middleware [auth jwt_verify, admin] (incoming hdr) of
        Respond r \<Rightarrow> r
      | Next req \<Rightarrow> get_user_handler i s)"

text \<open>POST /api/users\<close>

record create_user_body =
  cu_username :: "string option"
  cu_email :: "string option"
  cu_password :: "string option"
  cu_is_admin :: "bool option"

definition create_user_errors :: "(string \<Rightarrow> bool) \<Rightarrow> create_user_body \<Rightarrow> (string \<times> string) list" where
  "create_user_errors isEmail b =
     check (truthy (cu_username b)) ''username'' ''Username is required'' @
     check (isEmail (field_value (cu_email b))) ''email'' ''Please include a valid email'' @
     check (6 \<le> length (field_value (cu_password b))) ''password''
       ''Password must be at least 6 characters long'' @
     check (cu_is_admin b \<noteq> None) ''is_admin'' ''is_admin must be a boolean''"

definition create_user_handler ::
  "(string \<Rightarrow> bool) \<Rightarrow> (string \<Rightarrow> string) \<Rightarrow> nat \<Rightarrow> create_user_body \<Rightarrow> store \<Rightarrow> response \<times> store" where
  "create_user_handler isEmail hash now b s =
     (if create_user_errors isEmail b \<noteq> [] then (validation_failed (create_user_errors isEmail b), s)
      else if user_findOne_username s (field_value (cu_username b)) \<noteq> None
      then (fail_message 400 ''Username already exists'', s)
      else if user_findOne_email s (field_value (cu_email b)) \<noteq> None
      then (fail_message 400 ''Email already exists'', s)
      else
        let u = \<lparr>u_id = user_seq s, u_username = field_value (cu_username b),
                 u_email = field_value (cu_email b), u_password = hash (field_value (cu_password b)),
                 u_is_admin = (cu_is_admin b = Some True), u_createdAt = now\<rparr>
        in (send 201 (JObj [(''success'', JBool True),
                            (''user'', JObj (exclude [''password''] (user_toJSON u)))]),
            s\<lparr>users := users s @ [u], user_seq := user_seq s + 1\<rparr>))"

definition create_user ::
  "(string \<Rightarrow> jwt_payload option) \<Rightarrow> (string \<Rightarrow> bool) \<Rightarrow> (string \<Rightarrow> string) \<Rightarrow> nat \<Rightarrow>
   string option \<Rightarrow> create_user_body \<Rightarrow> store \<Rightarrow> response \<times> store" where
  "create_user jwt_verify isEmail hash now hdr b s =
     (case run_middleware [auth jwt_verify, admin] (incoming hdr) of
        Respond r \<Rightarrow> (r, s)
      | Next req \<Rightarrow> create_user_handler isEmail hash now b s)"

text \<open>PUT /api/users/:id\<close>

record update_user_body =
  uu_username :: "string option"
  uu_email :: "string option"
  uu_password :: "string option"
  uu_is_admin :: "bool option"

definition updateData :: "(string \<Rightarrow> string) \<Rightarrow> update_user_body \<Rightarrow> user \<Rightarrow> user" where
  "updateData hash b u =
     u\<lparr>u_username := or_else (uu_username b) (u_username u),
       u_email := or_else (uu_email b) (u_email u),
       u_is_admin := (case uu_is_admin b of None \<Rightarrow> u_is_admin u | Some v \<Rightarrow> v),
       u_password := (if truthy (uu_password b) then hash (field_value (uu_password b))
                      else u_password u)\<rparr>"

definition update_user_handler ::
  "(string \<Rightarrow> string) \<Rightarrow> int \<Rightarrow> update_user_body \<Rightarrow> store \<Rightarrow> response \<times> store" where
  "update_user_handler hash i b s =
     (case user_findByPk s i of
        None \<Rightarrow> (fail_message 404 ''User not found'', s)
      | Some u \<Rightarrow>
          if truthy (uu_username b) \<and> field_value (uu_username b) \<noteq> u_username u \<and>
             user_findOne_username s (field_value (uu_username b)) \<noteq> None
          then (fail_message 400 ''Username already exists'', s)
          else if truthy (uu_email b) \<and> field_value (uu_email b) \<noteq> u_email u \<and>
             user_findOne_email s (field_value (uu_email b)) \<noteq> None
          then (fail_message 400 ''Email already exists'', s)
          else
            (send 200 (JObj [(''success'', JBool True),
               (''user'', JObj (exclude [''password''] (user_toJSON (updateData hash b u))))]),
             user_save (updateData hash b u) s))"

definition update_user ::
  "(string \<Rightarrow> jwt_payload option) \<Rightarrow> (string \<Rightarrow> string) \<Rightarrow> string option \<Rightarrow> int \<Rightarrow>
   update_user_body \<Rightarrow> store \<Rightarrow> response \<times> store" where
  "update_user jwt_verify hash hdr i b s =
     (case run_middleware [auth jwt_verify, admin] (incoming hdr) of
        Respond r \<Rightarrow> (r, s)
      | Next req \<Rightarrow> update_user_handler hash i b s)"



text \<open>
  Two stores are alike up to password hashes when they agree once every stored hash is
  blanked.
\<close>

definition hide_password :: "user \<Rightarrow> user" where
  "hide_password u = u\<lparr>u_password := []\<rparr>"

definition forget_passwords :: "store \<Rightarrow> store" where
  "forget_passwords s = s\<lparr>users := map hide_password (users s)\<rparr>"

section \<open>Authentication (routes/authRoutes.js)\<close>

record login_body =
  lg_username :: "string option"
  lg_password :: "string option"

definition claims_of :: "user \<Rightarrow> claims" where
  "claims_of u = \<lparr>c_id = u_id u, c_username = u_username u, c_email = u_email u,
                  c_is_admin = u_is_admin u\<rparr>"

definition claims_toJSON :: "claims \<Rightarrow> json" where
  "claims_toJSON c =
     JObj [(''id'', JNum (c_id c)), (''username'', JStr (c_username c)), (''email'', JStr (c_email c)),
           (''is_admin'', JBool (c_is_admin c))]"

definition login_errors :: "login_body \<Rightarrow> (string \<times> string) list" where
  "login_errors b =
     check (truthy (lg_username b)) ''username'' ''Username is required'' @
     check (truthy (lg_password b)) ''password'' ''Password is required''"

text \<open>POST /api/auth/login. \<open>comparePassword u pw\<close> is \<^verbatim>\<open>user.comparePassword(password)\<close>.\<close>

definition login ::
  "(jwt_payload \<Rightarrow> string) \<Rightarrow> (user \<Rightarrow> string \<Rightarrow> bool) \<Rightarrow> login_body \<Rightarrow> store \<Rightarrow> response" where
  "login jwt_sign comparePassword b s =
     (if login_errors b \<noteq> [] then validation_failed (login_errors b)
      else case user_findOne_username s (field_value (lg_username b)) of
             None \<Rightarrow> fail_message 401 ''Invalid credentials''
           | Some u \<Rightarrow>
               if \<not> comparePassword u (field_value (lg_password b))
               then fail_message 401 ''Invalid credentials''
               else send 200 (JObj [(''success'', JBool True),
                      (''token'', JStr (jwt_sign (Payload (Some (claims_of u))))),
                      (''user'', claims_toJSON (claims_of u))]))"

text \<open>The token a response carries, if any.\<close>

definition token_of :: "response \<Rightarrow> string option" where
  "token_of r = (case member_of ''token'' (body r) of Some (JStr t) \<Rightarrow> Some t | _ \<Rightarrow> None)"

text \<open>
  GET /api/auth/me. The handler reads \<^verbatim>\<open>req.user.id\<close> inside its \<^verbatim>\<open>try\<close> block; with
  \<^verbatim>\<open>req.user\<close> undefined the read throws and the \<^verbatim>\<open>catch\<close> branch answers. The route is
  registered as \<^verbatim>\<open>router.get('/me', handler)\<close>: its list of middleware is empty, and
  server.js mounts the router with none either.
\<close>

definition me_handler :: "request \<Rightarrow> store \<Rightarrow> response" where
  "me_handler req s =
     (case req_user req of
        None \<Rightarrow> server_error
      | Some c \<Rightarrow>
          (case user_findByPk s (c_id c) of
             None \<Rightarrow> fail_message 404 ''User not found''
           | Some u \<Rightarrow>
               send 200 (JObj [(''success'', JBool True),
                 (''user'', JObj (exclude [''password''] (user_toJSON u)))])))"

definition me :: "string option \<Rightarrow> store \<Rightarrow> response" where
  "me hdr s =
     (case run_middleware [] (incoming hdr) of
        Respond r \<Rightarrow> r
      | Next req \<Rightarrow> me_handler req s)"

section \<open>Category deletion (routes/categoryRoutes.js)\<close>

text \<open>
  \<open>public_path\<close> is \<^verbatim>\<open>path.join(__dirname, '../../public', url)\<close>, a parameter.
  \<^verbatim>\<open>if (fs.existsSync(p)) fs.unlinkSync(p)\<close> removes the path when it is there.
\<close>

definition category_findByPk :: "store \<Rightarrow> int \<Rightarrow> category option" where
  "category_findByPk s i = find (\<lambda>c. cat_id c = i) (categories s)"

definition productCount :: "store \<Rightarrow> int \<Rightarrow> nat" where
  \<comment> \<open>\<^verbatim>\<open>Product.count({ where: { category_id: category.id } })\<close>\<close>
  "productCount s i = length (filter (\<lambda>p. p_category_id p = Some i) (products s))"

definition unlink_if_exists :: "string \<Rightarrow> store \<Rightarrow> store" where
  "unlink_if_exists path s = (if path \<in> files s then s\<lparr>files := files s - {path}\<rparr> else s)"

definition category_destroy :: "int \<Rightarrow> store \<Rightarrow> store" where
  "category_destroy i s = s\<lparr>categories := filter (\<lambda>c. cat_id c \<noteq> i) (categories s)\<rparr>"

definition delete_category_handler :: "(string \<Rightarrow> string) \<Rightarrow> int \<Rightarrow> store \<Rightarrow> response \<times> store" where
  "delete_category_handler public_path i s =
     (case category_findByPk s i of
        None \<Rightarrow> (fail_message 404 ''Category not found'', s)
      | Some c \<Rightarrow>
          if 0 < productCount s (cat_id c)
          then (fail_message 400
                  (''Cannot delete category with '' @ string_of_nat (productCount s (cat_id c)) @
                   '' products. Please move or delete the products first.''), s)
          else
            (ok_message ''Category deleted successfully'',
             category_destroy (cat_id c)
               (if truthy (cat_image_url c)
                then unlink_if_exists (public_path (field_value (cat_image_url c))) s
                else s)))"

definition delete_category ::
  "(string \<Rightarrow> jwt_payload option) \<Rightarrow> (string \<Rightarrow> string) \<Rightarrow> string option \<Rightarrow> int \<Rightarrow> store \<Rightarrow>
   response \<times> store" where
  "delete_category jwt_verify public_path hdr i s =
     (case run_middleware [auth jwt_verify, admin] (incoming hdr) of
        Respond r \<Rightarrow> (r, s)
      | Next req \<Rightarrow> delete_category_handler public_path i s)"

section \<open>Pagination (the query builder shared by the list routes)\<close>

text \<open>
  A \<^verbatim>\<open>page\<close> or \<^verbatim>\<open>limit\<close> query parameter is absent or a decimal numeral below
  \<open>2 ^ 53\<close>, which JavaScript reads as exactly that number.
  \<^verbatim>\<open>const { page = 1, limit = 10 } = req.query\<close> supplies the defaults and
  \<^verbatim>\<open>offset = (page - 1) * limit\<close> is a product of numbers: JavaScript rounds it to 53
  significant bits, to the nearest, ties to even (\<open>to_double\<close>).

  \<^verbatim>\<open>parseInt(offset)\<close> is applied to that number, not to a string: the number is first
  written out and the leading run of digits of what was written is read back. A number
  below \<open>10 ^ 21\<close> is written in plain digits and comes back as itself. A number from
  \<open>10 ^ 21\<close> on is written in exponent notation, as in \<^verbatim>\<open>1.180591620717411e+21\<close>, and only
  the digit before the point comes back. The digits written are the shortest that read
  back as the same number, so the first of them is the leading digit of the value, unless
  the next round value \<open>(d + 1) \<times> 10 ^ k\<close> already rounds to the number.

  \<^verbatim>\<open>findAndCountAll\<close> runs a count and a select. The select answers, of the matching rows
  in the requested order, the \<open>limit\<close> rows after the first \<open>offset\<close>. The store takes
  \<^verbatim>\<open>LIMIT\<close> and \<^verbatim>\<open>OFFSET\<close> as 64-bit integers that are not negative and rejects any other;
  it rejects an \<^verbatim>\<open>ORDER BY\<close> on a column that the table does not have. Either rejection
  fails the whole call, which the handler turns into the 500 answer. From \<open>2 ^ 53\<close> on, the
  numeral that the store reads for a number may differ from it in the last digits, never
  across \<open>2 ^ 63\<close>; a table has fewer rows than that, and the model hands over the number.
  \<^verbatim>\<open>Math.ceil(count / limit)\<close> is infinite or not a number when \<open>limit\<close> is 0, and JSON
  writes either as \<^verbatim>\<open>null\<close>; for a count below \<open>2 ^ 53\<close> the rounded quotient has the
  ceiling of the exact one.
\<close>

fun bit_length :: "nat \<Rightarrow> nat" where
  "bit_length n = (if n = 0 then 0 else Suc (bit_length (n div 2)))"

declare bit_length.simps [simp del]

definition to_double :: "nat \<Rightarrow> nat" where
  "to_double n =
     (if n < 2 ^ 53 then n
      else
        let e = bit_length n - 53; q = n div 2 ^ e; r = n mod 2 ^ e
        in if 2 * r < 2 ^ e \<or> (2 * r = 2 ^ e \<and> even q) then q * 2 ^ e else (q + 1) * 2 ^ e)"

fun leading_digit :: "nat \<Rightarrow> nat" where
  "leading_digit n = (if n < 10 then n else leading_digit (n div 10))"

declare leading_digit.simps [simp del]

definition first_written_digit :: "nat \<Rightarrow> nat" where
  "first_written_digit x =
     (if to_double ((leading_digit x + 1) * 10 ^ (length (string_of_nat x) - 1)) = x
      then (if leading_digit x = 9 then 1 else leading_digit x + 1)
      else leading_digit x)"

definition parseInt_number :: "nat \<Rightarrow> nat" where
  "parseInt_number x = (if x < 10 ^ 21 then x else first_written_digit x)"

definition page_of :: "nat option \<Rightarrow> nat" where
  "page_of p = (case p of None \<Rightarrow> 1 | Some n \<Rightarrow> n)"

definition limit_of :: "nat option \<Rightarrow> nat" where
  "limit_of l = (case l of None \<Rightarrow> 10 | Some n \<Rightarrow> n)"

definition offset_of :: "nat option \<Rightarrow> nat option \<Rightarrow> int" where
  \<comment> \<open>\<^verbatim>\<open>(page - 1) * limit\<close> before rounding; its sign is the sign of the rounded product\<close>
  "offset_of p l = (int (page_of p) - 1) * int (limit_of l)"

definition query_offset :: "nat option \<Rightarrow> nat option \<Rightarrow> nat" where
  \<comment> \<open>\<^verbatim>\<open>parseInt(offset)\<close>, for an offset that is not negative\<close>
  "query_offset p l = parseInt_number (to_double (nat (offset_of p l)))"

definition totalPages :: "nat \<Rightarrow> nat \<Rightarrow> json" where
  "totalPages n l = (if l = 0 then JNull else JNum \<lceil>real n / real l\<rceil>)"

definition page_rows :: "nat option \<Rightarrow> nat option \<Rightarrow> 'a list \<Rightarrow> 'a list option" where
  \<comment> \<open>\<^verbatim>\<open>LIMIT parseInt(limit) OFFSET parseInt(offset)\<close>; \<open>None\<close> where the store rejects the
      statement\<close>
  "page_rows p l rows =
     (if offset_of p l < 0 \<or> 2 ^ 63 \<le> query_offset p l \<or> 2 ^ 63 \<le> limit_of l then None
      else Some (take (limit_of l) (drop (query_offset p l) rows)))"

definition pagination :: "nat option \<Rightarrow> nat option \<Rightarrow> nat \<Rightarrow> json" where
  "pagination p l n =
     JObj [(''total'', JNum (int n)), (''page'', JNum (int (page_of p))),
           (''limit'', JNum (int (limit_of l))), (''totalPages'', totalPages n (limit_of l))]"

section \<open>Products (routes/productRoutes.js, models/Product.js)\<close>

record product_query =
  q_category :: "string option"
  q_search :: "string option"
  q_sort :: "string option"
  q_page :: "nat option"
  q_limit :: "nat option"

datatype direction = ASC | DESC

datatype product_order = By_name direction | By_createdAt direction

definition resolve_sort :: "string option \<Rightarrow> product_order" where
  \<comment> \<open>\<^verbatim>\<open>queryOptions.order\<close>: \<^verbatim>\<open>[['createdAt', 'DESC']]\<close> unless \<^verbatim>\<open>sort\<close> names another\<close>
  "resolve_sort srt =
     (if srt = Some ''name-asc'' then By_name ASC
      else if srt = Some ''name-desc'' then By_name DESC
      else if srt = Some ''oldest'' then By_createdAt ASC
      else By_createdAt DESC)"

fun order_products :: "product_order \<Rightarrow> product list \<Rightarrow> product list option" where
  \<comment> \<open>\<^verbatim>\<open>name\<close> is a column of the Product model. \<^verbatim>\<open>createdAt\<close> is not (the model declares
      \<^verbatim>\<open>created_at\<close> and \<^verbatim>\<open>timestamps: false\<close>): the store rejects the statement, which is
      \<open>None\<close>\<close>
  "order_products (By_name ASC) ps = Some (sort_key p_name ps)"
| "order_products (By_name DESC) ps = Some (rev (sort_key p_name ps))"
| "order_products (By_createdAt d) ps = None"

definition product_findByPk :: "store \<Rightarrow> int \<Rightarrow> product option" where
  "product_findByPk s i = find (\<lambda>p. p_id p = i) (products s)"

definition product_category :: "store \<Rightarrow> product \<Rightarrow> category option" where
  "product_category s p =
     (case p_category_id p of None \<Rightarrow> None | Some i \<Rightarrow> category_findByPk s i)"

definition product_images :: "store \<Rightarrow> product \<Rightarrow> product_image list" where
  "product_images s p = filter (\<lambda>im. img_product_id im = p_id p) (images s)"

definition matches_category :: "store \<Rightarrow> string option \<Rightarrow> product \<Rightarrow> bool" where
  \<comment> \<open>\<^verbatim>\<open>include[0].where = { slug: category }\<close> makes the join an inner join\<close>
  "matches_category s cat p =
     (if truthy cat
      then (case product_category s p of None \<Rightarrow> False | Some c \<Rightarrow> cat_slug c = field_value cat)
      else True)"

definition ilike_opt :: "(string \<Rightarrow> string \<Rightarrow> bool) \<Rightarrow> string \<Rightarrow> string option \<Rightarrow> bool" where
  \<comment> \<open>a comparison with a NULL column is not true\<close>
  "ilike_opt ilike pat col = (case col of None \<Rightarrow> False | Some v \<Rightarrow> ilike pat v)"

definition matches_search :: "(string \<Rightarrow> string \<Rightarrow> bool) \<Rightarrow> string option \<Rightarrow> product \<Rightarrow> bool" where
  \<comment> \<open>\<open>ilike pat v\<close> is the store's \<^verbatim>\<open>v ILIKE pat\<close>, with the pattern \<^verbatim>\<open>`%${search}%`\<close>\<close>
  "matches_search ilike srch p =
     (if truthy srch
      then ilike (''%'' @ field_value srch @ ''%'') (p_name p) \<or>
           ilike_opt ilike (''%'' @ field_value srch @ ''%'') (p_model_number p) \<or>
           ilike_opt ilike (''%'' @ field_value srch @ ''%'') (p_description p)
      else True)"

definition matching_products :: "(string \<Rightarrow> string \<Rightarrow> bool) \<Rightarrow> product_query \<Rightarrow> store \<Rightarrow> product list" where
  "matching_products ilike q s =
     filter (\<lambda>p. matches_category s (q_category q) p \<and> matches_search ilike (q_search q) p) (products s)"

definition product_toJSON :: "product \<Rightarrow> (string \<times> json) list" where
  "product_toJSON p =
     [(''id'', JNum (p_id p)), (''name'', JStr (p_name p)), (''slug'', JStr (p_slug p)),
      (''model_number'', json_opt (p_model_number p)), (''description'', json_opt (p_description p)),
      (''features'', json_opt (p_features p)),
      (''specifications'', (case p_specifications p of None \<Rightarrow> JNull | Some v \<Rightarrow> v)),
      (''price'', json_opt (p_price p)),
      (''category_id'', (case p_category_id p of None \<Rightarrow> JNull | Some i \<Rightarrow> JNum i)),
      (''created_at'', JNum (int (p_created_at p))), (''updated_at'', JNum (int (p_updated_at p)))]"

definition category_summary :: "category option \<Rightarrow> json" where
  \<comment> \<open>\<^verbatim>\<open>attributes: ['id', 'name', 'slug']\<close>\<close>
  "category_summary c =
     (case c of
        None \<Rightarrow> JNull
      | Some c \<Rightarrow> JObj [(''id'', JNum (cat_id c)), (''name'', JStr (cat_name c)), (''slug'', JStr (cat_slug c))])"

definition image_summary :: "product_image \<Rightarrow> json" where
  \<comment> \<open>\<^verbatim>\<open>attributes: ['id', 'image_url', 'is_primary']\<close>\<close>
  "image_summary im =
     JObj [(''id'', JNum (img_id im)), (''image_url'', JStr (img_image_url im)),
           (''is_primary'', JBool (img_is_primary im))]"

definition product_with_relations :: "store \<Rightarrow> product \<Rightarrow> json" where
  "product_with_relations s p =
     JObj (product_toJSON p @
           [(''category'', category_summary (product_category s p)),
            (''images'', JArr (map image_summary (product_images s p)))])"

text \<open>
  GET /api/products. The select of \<^verbatim>\<open>findAndCountAll\<close> limits and orders the matching
  products and then attaches the category and the images of each. The count is taken over
  the join of the matching products with their images (\<^verbatim>\<open>include\<close> of a \<^verbatim>\<open>hasMany\<close>
  association, no \<^verbatim>\<open>distinct\<close>): a product counts once for each of its images, and once
  when it has none.
\<close>

definition joined_rows :: "store \<Rightarrow> product \<Rightarrow> nat" where
  \<comment> \<open>the rows that the left outer join with the images has for one product\<close>
  "joined_rows s p = max 1 (length (product_images s p))"

definition product_count :: "(string \<Rightarrow> string \<Rightarrow> bool) \<Rightarrow> product_query \<Rightarrow> store \<Rightarrow> nat" where
  \<comment> \<open>\<^verbatim>\<open>count\<close> of \<^verbatim>\<open>Product.findAndCountAll(queryOptions)\<close>\<close>
  "product_count ilike q s = sum_list (map (joined_rows s) (matching_products ilike q s))"

definition list_products :: "(string \<Rightarrow> string \<Rightarrow> bool) \<Rightarrow> product_query \<Rightarrow> store \<Rightarrow> response" where
  "list_products ilike q s =
     (case order_products (resolve_sort (q_sort q)) (matching_products ilike q s) of
        None \<Rightarrow> server_error
      | Some ordered \<Rightarrow>
          (case page_rows (q_page q) (q_limit q) ordered of
             None \<Rightarrow> server_error
           | Some rows \<Rightarrow>
               send 200 (JObj [(''success'', JBool True),
                 (''products'', JArr (map (product_with_relations s) rows)),
                 (''pagination'',
                    pagination (q_page q) (q_limit q) (product_count ilike q s))])))"

text \<open>
  PUT /api/products/:id. The body arrives as multipart form fields, all strings;
  \<open>category_id\<close> is the number the field spells. \<open>uploaded\<close> lists \<^verbatim>\<open>file.filename\<close> of
  \<^verbatim>\<open>req.files\<close>. \<open>json_parse\<close> is \<^verbatim>\<open>JSON.parse\<close>, \<open>None\<close> where it throws; it is called
  while the argument of \<^verbatim>\<open>product.update\<close> is built, so a throw reaches the \<^verbatim>\<open>catch\<close>
  branch before anything is written. The model's \<^verbatim>\<open>beforeUpdate\<close> hook sets
  \<^verbatim>\<open>updated_at = new Date()\<close>; \<open>now\<close> is the clock at that moment.
\<close>

record update_product_body =
  up_name :: "string option"
  up_model_number :: "string option"
  up_category_id :: "int option"
  up_description :: "string option"
  up_features :: "string option"
  up_specifications :: "string option"
  up_price :: "string option"
  up_replace_images :: "string option"

definition product_values ::
  "update_product_body \<Rightarrow> json option \<Rightarrow> product \<Rightarrow> product" where
  \<comment> \<open>the object handed to \<^verbatim>\<open>product.update\<close>; \<open>specs\<close> is the value computed for
      \<open>specifications\<close>\<close>
  "product_values b specs p =
     p\<lparr>p_name := or_else (up_name b) (p_name p),
       p_model_number := or_else_opt (up_model_number b) (p_model_number p),
       p_category_id := (case up_category_id b of None \<Rightarrow> p_category_id p | Some i \<Rightarrow> Some i),
       p_description := or_else_opt (up_description b) (p_description p),
       p_features := or_else_opt (up_features b) (p_features p),
       p_specifications := specs,
       p_price := or_else_opt (up_price b) (p_price p)\<rparr>"

definition beforeUpdate :: "nat \<Rightarrow> product \<Rightarrow> product" where
  "beforeUpdate now p = p\<lparr>p_updated_at := now\<rparr>"

definition product_save :: "product \<Rightarrow> store \<Rightarrow> store" where
  "product_save p' s = s\<lparr>products := map (\<lambda>p. if p_id p = p_id p' then p' else p) (products s)\<rparr>"

definition parsed_specifications ::
  "(string \<Rightarrow> json option) \<Rightarrow> update_product_body \<Rightarrow> product \<Rightarrow> json option option" where
  \<comment> \<open>\<^verbatim>\<open>req.body.specifications ? JSON.parse(req.body.specifications) : product.specifications\<close>;
      the outer \<open>None\<close> is the exception\<close>
  "parsed_specifications json_parse b p =
     (if truthy (up_specifications b)
      then map_option Some (json_parse (field_value (up_specifications b)))
      else Some (p_specifications p))"

definition unlink_images :: "(string \<Rightarrow> string) \<Rightarrow> product_image list \<Rightarrow> store \<Rightarrow> store" where
  "unlink_images public_path ims s =
     fold (\<lambda>im. unlink_if_exists (public_path (img_image_url im))) ims s"

definition image_destroy_where :: "int \<Rightarrow> store \<Rightarrow> store" where
  \<comment> \<open>\<^verbatim>\<open>ProductImage.destroy({ where: { product_id } })\<close>\<close>
  "image_destroy_where pid s = s\<lparr>images := filter (\<lambda>im. img_product_id im \<noteq> pid) (images s)\<rparr>"

definition new_images :: "int \<Rightarrow> int \<Rightarrow> bool \<Rightarrow> string list \<Rightarrow> product_image list" where
  \<comment> \<open>\<^verbatim>\<open>req.files.map((file, index) => ...)\<close>, keyed from the next free id\<close>
  "new_images first_id pid replacing uploaded =
     map (\<lambda>(k, f). \<lparr>img_id = first_id + int k, img_product_id = pid,
                     img_image_url = ''/uploads/products/'' @ f,
                     img_is_primary = (k = 0 \<and> replacing)\<rparr>)
         (enumerate 0 uploaded)"

definition image_bulkCreate :: "int \<Rightarrow> bool \<Rightarrow> string list \<Rightarrow> store \<Rightarrow> store" where
  "image_bulkCreate pid replacing uploaded s =
     s\<lparr>images := images s @ new_images (image_seq s) pid replacing uploaded,
       image_seq := image_seq s + int (length uploaded)\<rparr>"

definition process_uploads ::
  "(string \<Rightarrow> string) \<Rightarrow> update_product_body \<Rightarrow> string list \<Rightarrow> product \<Rightarrow> store \<Rightarrow> store" where
  "process_uploads public_path b uploaded p s =
     (if uploaded = [] then s
      else
        image_bulkCreate (p_id p) (up_replace_images b = Some ''true'') uploaded
          (if up_replace_images b = Some ''true''
           then image_destroy_where (p_id p) (unlink_images public_path (product_images s p) s)
           else s))"

definition update_product_handler ::
  "(string \<Rightarrow> json option) \<Rightarrow> (string \<Rightarrow> string) \<Rightarrow> nat \<Rightarrow> int \<Rightarrow> update_product_body \<Rightarrow>
   string list \<Rightarrow> store \<Rightarrow> response \<times> store" where
  "update_product_handler json_parse public_path now i b uploaded s =
     (case product_findByPk s i of
        None \<Rightarrow> (fail_message 404 ''Product not found'', s)
      | Some p \<Rightarrow>
          if (case up_category_id b of None \<Rightarrow> False | Some c \<Rightarrow> category_findByPk s c = None)
          then (fail_message 400 ''Invalid category'', s)
          else
            (case parsed_specifications json_parse b p of
               None \<Rightarrow> (server_error, s)
             | Some specs \<Rightarrow>
                 (send 200 (JObj [(''success'', JBool True),
                    (''product'',
                       product_with_relations
                         (process_uploads public_path b uploaded p
                            (product_save (beforeUpdate now (product_values b specs p)) s))
                         (beforeUpdate now (product_values b specs p)))]),
                  process_uploads public_path b uploaded p
                    (product_save (beforeUpdate now (product_values b specs p)) s))))"

definition update_product ::
  "(string \<Rightarrow> jwt_payload option) \<Rightarrow> (string \<Rightarrow> json option) \<Rightarrow> (string \<Rightarrow> string) \<Rightarrow> nat \<Rightarrow>
   string option \<Rightarrow> int \<Rightarrow> update_product_body \<Rightarrow> string list \<Rightarrow> store \<Rightarrow> response \<times> store" where
  "update_product jwt_verify json_parse public_path now hdr i b uploaded s =
     (case run_middleware [auth jwt_verify, admin] (incoming hdr) of
        Respond r \<Rightarrow> (r, s)
      | Next req \<Rightarrow> update_product_handler json_parse public_path now i b uploaded s)"

section \<open>Contact messages (routes/contactRoutes.js, models/ContactMessage.js)\<close>

record contact_body =
  ct_name :: "string option"
  ct_email :: "string option"
  ct_phone :: "string option"
  ct_subject :: "string option"
  ct_message :: "string option"

definition contact_errors :: "(string \<Rightarrow> bool) \<Rightarrow> contact_body \<Rightarrow> (string \<times> string) list" where
  "contact_errors isEmail b =
     check (truthy (ct_name b)) ''name'' ''Name is required'' @
     check (isEmail (field_value (ct_email b))) ''email'' ''Please include a valid email'' @
     check (truthy (ct_subject b)) ''subject'' ''Subject is required'' @
     check (truthy (ct_message b)) ''message'' ''Message is required''"

text \<open>
  \<^verbatim>\<open>ContactMessage.create\<close> first runs the validators of the model and then inserts the
  row. The model's \<^verbatim>\<open>notEmpty\<close> fails on a value made of white space only (it tests
  \<^verbatim>\<open>/^[\s\t\r\n]*$/\<close>), which the \<^verbatim>\<open>notEmpty()\<close> of the route lets through. The model's
  \<^verbatim>\<open>isEmail\<close> is the parameter \<open>model_isEmail\<close>. A \<^verbatim>\<open>STRING(n)\<close> column is a
  \<^verbatim>\<open>character varying(n)\<close>: the store takes a value of at most \<open>n\<close> characters as it is,
  cuts a longer one whose excess is all spaces to \<open>n\<close> characters, and rejects any other.
\<close>

definition white_space :: "char \<Rightarrow> bool" where
  \<comment> \<open>\<^verbatim>\<open>\s\<close> among the characters below 256: tab, line feed, vertical tab, form feed,
      carriage return, space, no-break space\<close>
  "white_space c =
     (c = CHR 0x09 \<or> c = CHR 0x0A \<or> c = CHR 0x0B \<or> c = CHR 0x0C \<or> c = CHR 0x0D \<or>
      c = CHR 0x20 \<or> c = CHR 0xA0)"

definition blank :: "string \<Rightarrow> bool" where
  "blank v = list_all white_space v"

definition varchar :: "nat \<Rightarrow> string \<Rightarrow> string option" where
  "varchar n v =
     (if length v \<le> n then Some v
      else if list_all (\<lambda>c. c = CHR 0x20) (drop n v) then Some (take n v)
      else None)"

definition varchar_opt :: "nat \<Rightarrow> string option \<Rightarrow> string option option" where
  \<comment> \<open>a column that allows NULL\<close>
  "varchar_opt n v = (case v of None \<Rightarrow> Some None | Some x \<Rightarrow> map_option Some (varchar n x))"

definition new_contact_message ::
  "(string \<Rightarrow> bool) \<Rightarrow> int \<Rightarrow> nat \<Rightarrow> contact_body \<Rightarrow> contact_message option" where
  \<comment> \<open>the row that \<^verbatim>\<open>ContactMessage.create\<close> writes for the object the handler builds, with
      the key, \<open>created_at\<close> and \<open>is_read\<close> at the defaults of the model; the keys
      \<^verbatim>\<open>subject\<close> and \<^verbatim>\<open>status\<close> of that object are no attributes of the model and are
      left out; \<open>None\<close> where the call throws\<close>
  "new_contact_message model_isEmail i now b =
     (if blank (field_value (ct_name b)) then None
      else if model_isEmail (field_value (ct_email b)) then
        (if blank (field_value (ct_message b)) then None
         else
           (case varchar 100 (field_value (ct_name b)) of
              None \<Rightarrow> None
            | Some name \<Rightarrow>
                (case varchar 100 (field_value (ct_email b)) of
                   None \<Rightarrow> None
                 | Some email \<Rightarrow>
                     (case varchar_opt 50 (or_else_opt (ct_phone b) None) of
                        None \<Rightarrow> None
                      | Some phone \<Rightarrow>
                          Some \<lparr>m_id = i, m_name = name, m_email = email, m_phone = phone,
                                m_message = field_value (ct_message b), m_created_at = now,
                                m_is_read = False\<rparr>))))
      else None)"

text \<open>POST /api/contact\<close>

definition submit_contact ::
  "(string \<Rightarrow> bool) \<Rightarrow> (string \<Rightarrow> bool) \<Rightarrow> nat \<Rightarrow> contact_body \<Rightarrow> store \<Rightarrow> response \<times> store" where
  "submit_contact isEmail model_isEmail now b s =
     (if contact_errors isEmail b \<noteq> [] then (validation_failed (contact_errors isEmail b), s)
      else
        (case new_contact_message model_isEmail (message_seq s) now b of
           None \<Rightarrow> (server_error, s)
         | Some m \<Rightarrow>
             (send 201 (JObj [(''success'', JBool True),
                (''message'',
                   JStr ''Your message has been sent successfully. We will get back to you soon.'')]),
              s\<lparr>messages := messages s @ [m], message_seq := message_seq s + 1\<rparr>)))"

record message_query =
  mq_page :: "nat option"
  mq_limit :: "nat option"
  mq_status :: "string option"

text \<open>
  GET /api/contact/messages. Whatever the query, the handler hands \<^verbatim>\<open>findAndCountAll\<close>
  the order \<^verbatim>\<open>[['createdAt', 'DESC']]\<close>, and with a \<^verbatim>\<open>status\<close> parameter the clause
  \<^verbatim>\<open>where: { status }\<close>. The ContactMessage model has neither column, the store rejects
  the select, and every request that reaches the handler ends in its \<^verbatim>\<open>catch\<close> branch.
\<close>

definition list_messages_handler :: "message_query \<Rightarrow> store \<Rightarrow> response" where
  "list_messages_handler q s = server_error"

definition list_messages ::
  "(string \<Rightarrow> jwt_payload option) \<Rightarrow> string option \<Rightarrow> message_query \<Rightarrow> store \<Rightarrow> response" where
  "list_messages jwt_verify hdr q s =
     (case run_middleware [auth jwt_verify, admin] (incoming hdr) of
        Respond r \<Rightarrow> r
      | Next req \<Rightarrow> list_messages_handler q s)"

section \<open>Example data\<close>

text \<open>
  A small store and a token verifier that knows two tokens, used to run the handlers on
  concrete requests.
\<close>

definition demo_hash :: "string \<Rightarrow> string" where
  "demo_hash pw = ''$2b$10$'' @ rev pw"

definition demo_compare :: "user \<Rightarrow> string \<Rightarrow> bool" where
  "demo_compare u pw = (u_password u = demo_hash pw)"

definition demo_admin :: user where
  "demo_admin = \<lparr>u_id = 1, u_username = ''admin'', u_email = ''admin@example.com'',
     u_password = ''$2b$10$321nimda'', u_is_admin = True, u_createdAt = 100\<rparr>"

definition demo_clerk :: user where
  "demo_clerk = \<lparr>u_id = 2, u_username = ''clerk'', u_email = ''clerk@example.com'',
     u_password = ''$2b$10$654krelc'', u_is_admin = False, u_createdAt = 200\<rparr>"

definition demo_admin_claims :: claims where
  "demo_admin_claims = \<lparr>c_id = 1, c_username = ''admin'', c_email = ''admin@example.com'',
     c_is_admin = True\<rparr>"

definition demo_verify :: "string \<Rightarrow> jwt_payload option" where
  "demo_verify t =
     (if t = ''admin-token'' then Some (Payload (Some demo_admin_claims))
      else if t = ''clerk-token''
      then Some (Payload (Some \<lparr>c_id = 2, c_username = ''clerk'', c_email = ''clerk@example.com'',
                               c_is_admin = False\<rparr>))
      else None)"

definition demo_sign :: "jwt_payload \<Rightarrow> string" where
  "demo_sign p = (if p = Payload (Some demo_admin_claims) then ''admin-token'' else ''clerk-token'')"

definition demo_isEmail :: "string \<Rightarrow> bool" where
  "demo_isEmail e = (CHR ''@'' \<in> set e)"

definition demo_public_path :: "string \<Rightarrow> string" where
  "demo_public_path url = ''public'' @ url"

definition demo_smart :: category where
  "demo_smart = \<lparr>cat_id = 5, cat_name = ''Smart Watch'', cat_slug = ''smart-watch'',
     cat_description = None, cat_image_url = Some ''/uploads/categories/smart.png''\<rparr>"

definition demo_led :: category where
  "demo_led = \<lparr>cat_id = 6, cat_name = ''LED Watch'', cat_slug = ''led-watch'',
     cat_description = None, cat_image_url = Some ''/uploads/categories/led.png''\<rparr>"

definition demo_watch :: "int \<Rightarrow> string \<Rightarrow> nat \<Rightarrow> product" where
  "demo_watch i n t = \<lparr>p_id = i, p_name = n, p_slug = n, p_model_number = Some ''1894'',
     p_description = Some ''Digital watch'', p_features = None, p_specifications = None,
     p_price = Some ''19.99'', p_category_id = Some 5, p_created_at = t, p_updated_at = t\<rparr>"

definition demo_note :: "int \<Rightarrow> bool \<Rightarrow> nat \<Rightarrow> contact_message" where
  "demo_note i r t = \<lparr>m_id = i, m_name = ''Ann'', m_email = ''ann@example.com'', m_phone = None,
     m_message = ''Do you sell straps?'', m_created_at = t, m_is_read = r\<rparr>"

definition demo_store :: store where
  "demo_store = \<lparr>users = [demo_admin, demo_clerk], user_seq = 3,
     categories = [demo_smart, demo_led],
     products = [demo_watch 10 ''w-a'' 150, demo_watch 11 ''w-b'' 160, demo_watch 12 ''w-c'' 170],
     images = [\<lparr>img_id = 1, img_product_id = 10, img_image_url = ''/images/placeholder.jpg'',
                img_is_primary = True\<rparr>],
     image_seq = 2,
     messages = [demo_note 1 True 300, demo_note 2 False 310, demo_note 3 False 320],
     message_seq = 4,
     files = {''public/uploads/categories/smart.png'', ''public/uploads/categories/led.png''}\<rparr>"

definition demo_gallery :: store where
  \<comment> \<open>the example store with a fourth product, of the other category, and two more images,
      both of product 11\<close>
  "demo_gallery = demo_store
     \<lparr>products := products demo_store @ [(demo_watch 13 ''w-d'' 180)\<lparr>p_category_id := Some 6\<rparr>],
      images := images demo_store @
        [\<lparr>img_id = 2, img_product_id = 11, img_image_url = ''/uploads/products/front.jpg'',
          img_is_primary = True\<rparr>,
         \<lparr>img_id = 3, img_product_id = 11, img_image_url = ''/uploads/products/back.jpg'',
          img_is_primary = False\<rparr>],
      image_seq := 4\<rparr>"

definition demo_query :: "nat \<Rightarrow> nat \<Rightarrow> product_query" where
  "demo_query p l = \<lparr>q_category = Some ''smart-watch'', q_search = None, q_sort = None,
     q_page = Some p, q_limit = Some l\<rparr>"

definition demo_query_by_name :: "nat \<Rightarrow> nat \<Rightarrow> product_query" where
  "demo_query_by_name p l = \<lparr>q_category = Some ''smart-watch'', q_search = None,
     q_sort = Some ''name-asc'', q_page = Some p, q_limit = Some l\<rparr>"

definition demo_contact :: "string \<Rightarrow> contact_body" where
  "demo_contact n = \<lparr>ct_name = Some n, ct_email = Some ''bo@example.com'', ct_phone = None,
     ct_subject = Some ''Battery'', ct_message = Some ''Which battery fits model 1894?''\<rparr>"

definition demo_user_patch :: update_user_body where
  "demo_user_patch = \<lparr>uu_username = None, uu_email = Some ''clerk@skmei.example'',
     uu_password = None, uu_is_admin = None\<rparr>"

definition demo_product_patch :: update_product_body where
  "demo_product_patch = \<lparr>up_name = Some ''Watch A'', up_model_number = None, up_category_id = None,
     up_description = None, up_features = None, up_specifications = None, up_price = None,
     up_replace_images = None\<rparr>"

definition demo_rehashed :: store where
  "demo_rehashed = demo_store\<lparr>users := [demo_admin\<lparr>u_password := ''$2b$10$drowssapwen''\<rparr>, demo_clerk]\<rparr>"

definition demo_new_user :: create_user_body where
  "demo_new_user = \<lparr>cu_username = Some ''dana'', cu_email = Some ''dana@example.com'',
     cu_password = Some ''secret99'', cu_is_admin = Some False\<rparr>"

section \<open>Properties of the user routes\<close>



lemma find_key: "find (\<lambda>u. f u = i) xs = Some u \<Longrightarrow> f u = i \<and> u \<in> set xs"
  by (induction xs) (auto split: if_splits)

lemma find_after_filter: "find (\<lambda>u. f u = i) (filter (\<lambda>v. f v \<noteq> i) xs) = None"
  by (induction xs) auto





lemma demo_admin_passes:
  "run_middleware [auth demo_verify, admin] (incoming (Some ''Bearer admin-token'')) =
     Next \<lparr>authorization = Some ''Bearer admin-token'', req_user = Some demo_admin_claims\<rparr>"
  by (simp add: auth_def admin_def incoming_def bearer_token_def demo_verify_def demo_admin_claims_def)


text \<open>
  The guard belongs to the delete route. The update route writes \<open>is_admin\<close> as the body
  gives it: PUT /api/users/1 with \<^verbatim>\<open>{"is_admin": false}\<close>, sent by the only administrator,
  is answered 200 and leaves the example store without an administrator.
\<close>

lemma update_user_removes_last_admin:
  "0 < adminCount demo_store \<and>
   fst (update_user demo_verify demo_hash (Some ''Bearer admin-token'') 1
         \<lparr>uu_username = None, uu_email = None, uu_password = None, uu_is_admin = Some False\<rparr> demo_store) =
     send 200 (JObj [(''success'', JBool True),
        (''user'', JObj [(''id'', JNum 1), (''username'', JStr ''admin''), (''email'', JStr ''admin@example.com''),
                         (''is_admin'', JBool False), (''createdAt'', JNum 100)])]) \<and>
   adminCount (snd (update_user demo_verify demo_hash (Some ''Bearer admin-token'') 1
         \<lparr>uu_username = None, uu_email = None, uu_password = None, uu_is_admin = Some False\<rparr> demo_store)) = 0"
  using demo_admin_passes
  by (simp add: update_user_def update_user_handler_def updateData_def user_save_def user_findByPk_def
      adminCount_def demo_store_def demo_admin_def demo_clerk_def truthy_def or_else_def exclude_def user_toJSON_def)

section \<open>Decimal numerals\<close>

lemma digit_value_digit_char: "d < 10 \<Longrightarrow> digit_value (digit_char d) = d"
proof -
  assume "d < 10"
  then have "d \<in> {0, 1, 2, 3, 4, 5, 6, 7, 8, 9}" by auto
  then show ?thesis
    by (auto simp: digit_value_def digit_char_def)
qed

lemma nat_of_string_snoc: "nat_of_string (cs @ [c]) = 10 * nat_of_string cs + digit_value c"
  by (simp add: nat_of_string_def)

lemma nat_of_string_of_nat: "nat_of_string (string_of_nat n) = n"
proof (induction n rule: string_of_nat.induct)
  case (1 n)
  show ?case
  proof (cases "n < 10")
    case True
    then show ?thesis
      by (simp add: string_of_nat.simps [of n] nat_of_string_def digit_value_digit_char)
  next
    case False
    with 1 show ?thesis
      by (simp add: string_of_nat.simps [of n] nat_of_string_snoc digit_value_digit_char)
  qed
qed

section \<open>Properties of the credential verifier\<close>

lemma replace_first_prefix: "replace_first pat [] (pat @ rest) = rest"
proof (cases "pat @ rest")
  case Nil
  then show ?thesis by simp
next
  case (Cons a list)
  then have "take (length pat) (a # list) = pat" and "drop (length pat) (a # list) = rest"
    by (metis append_eq_conv_conj)+
  with Cons show ?thesis by simp
qed

text \<open>
  C6. The token is what remains of the Authorization header after the first
  \<^verbatim>\<open>'Bearer '\<close> is removed. With no header, or nothing left of it, \<open>auth\<close> answers 401
  "No token, authorization denied". With a token that \<open>jwt_verify\<close> rejects it answers
  401 "Token is not valid". With a token that verifies, the request goes on with the
  decoded \<open>user\<close> claims as \<^verbatim>\<open>req.user\<close> and is otherwise the request that came in.
\<close>

theorem auth_outcomes:
  "(authorization req = None \<or> bearer_token req = Some [] \<longrightarrow>
      auth jwt_verify req =
        Respond \<lparr>status = 401, body = JObj [(''success'', JBool False),
                   (''message'', JStr ''No token, authorization denied'')]\<rparr>) \<and>
   (bearer_token req = Some token \<and> token \<noteq> [] \<and> jwt_verify token = None \<longrightarrow>
      auth jwt_verify req =
        Respond \<lparr>status = 401, body = JObj [(''success'', JBool False),
                   (''message'', JStr ''Token is not valid'')]\<rparr>) \<and>
   (bearer_token req = Some token \<and> token \<noteq> [] \<and> jwt_verify token = Some (Payload cl) \<longrightarrow>
      auth jwt_verify req = Next \<lparr>authorization = authorization req, req_user = cl\<rparr>) \<and>
   (authorization req = Some (''Bearer '' @ token) \<longrightarrow> bearer_token req = Some token)"
  using replace_first_prefix [of "''Bearer ''" token]
  by (auto simp: auth_def bearer_token_def fail_message_def send_def)

theorem auth_outcomes_witness:
  "auth demo_verify (incoming None) =
     Respond \<lparr>status = 401, body = JObj [(''success'', JBool False),
                (''message'', JStr ''No token, authorization denied'')]\<rparr> \<and>
   auth demo_verify (incoming (Some ''Bearer '')) =
     Respond \<lparr>status = 401, body = JObj [(''success'', JBool False),
                (''message'', JStr ''No token, authorization denied'')]\<rparr> \<and>
   auth demo_verify (incoming (Some ''Bearer forged'')) =
     Respond \<lparr>status = 401, body = JObj [(''success'', JBool False),
                (''message'', JStr ''Token is not valid'')]\<rparr> \<and>
   auth demo_verify (incoming (Some ''Bearer admin-token'')) =
     Next \<lparr>authorization = Some ''Bearer admin-token'', req_user = Some demo_admin_claims\<rparr>"
  using auth_outcomes [where req = "incoming None" and jwt_verify = demo_verify]
    auth_outcomes [where req = "incoming (Some ''Bearer '')" and token = "[]" and jwt_verify = demo_verify]
    auth_outcomes [where req = "incoming (Some ''Bearer forged'')" and token = "''forged''"
      and jwt_verify = demo_verify]
    auth_outcomes [where req = "incoming (Some ''Bearer admin-token'')" and token = "''admin-token''"
      and jwt_verify = demo_verify and cl = "Some demo_admin_claims"]
  by (simp add: incoming_def demo_verify_def)

lemma me_never_authenticates:
  "me hdr s = \<lparr>status = 500, body = JObj [(''success'', JBool False), (''message'', JStr ''Server error'')]\<rparr>"
  by (simp add: me_def me_handler_def incoming_def server_error_def fail_message_def send_def)

text \<open>
  C7. GET /api/auth/me as the router registers it: without an Authorization header the
  answer is 500 "Server error", not 401; and with the administrator's valid token, for
  which \<open>auth\<close> would attach the claims of a stored user, the answer is the same 500,
  not the user.
\<close>

theorem me_route_is_not_protected:
  "me None demo_store =
     \<lparr>status = 500, body = JObj [(''success'', JBool False), (''message'', JStr ''Server error'')]\<rparr> \<and>
   auth demo_verify (incoming (Some ''Bearer admin-token'')) =
     Next \<lparr>authorization = Some ''Bearer admin-token'', req_user = Some demo_admin_claims\<rparr> \<and>
   user_findByPk demo_store (c_id demo_admin_claims) = Some demo_admin \<and>
   me (Some ''Bearer admin-token'') demo_store =
     \<lparr>status = 500, body = JObj [(''success'', JBool False), (''message'', JStr ''Server error'')]\<rparr>"
  by (simp add: me_never_authenticates auth_def bearer_token_def incoming_def demo_verify_def
      user_findByPk_def demo_store_def demo_admin_def demo_admin_claims_def)

section \<open>Properties of category deletion and contact submission\<close>

text \<open>
  C4. Deleting an existing category. While products reference it the answer is 400 with
  the message "Cannot delete category with N products. ...", N being the decimal numeral
  of the number of referencing products, and the store is unchanged. With no referencing
  product the answer is the success message, the category row is gone, the products are
  untouched, and the image path of the category is no longer among the files, whether or
  not it was there before.
\<close>

theorem delete_category_guard:
  "category_findByPk s i = Some c \<longrightarrow>
     (0 < productCount s i \<longrightarrow>
        delete_category_handler public_path i s =
          (\<lparr>status = 400, body = JObj [(''success'', JBool False),
             (''message'', JStr (''Cannot delete category with '' @ string_of_nat (productCount s i) @
                '' products. Please move or delete the products first.''))]\<rparr>, s) \<and>
        nat_of_string (string_of_nat (productCount s i)) = productCount s i) \<and>
     (productCount s i = 0 \<longrightarrow>
        fst (delete_category_handler public_path i s) =
          \<lparr>status = 200, body = JObj [(''success'', JBool True),
             (''message'', JStr ''Category deleted successfully'')]\<rparr> \<and>
        categories (snd (delete_category_handler public_path i s)) =
          filter (\<lambda>x. cat_id x \<noteq> i) (categories s) \<and>
        category_findByPk (snd (delete_category_handler public_path i s)) i = None \<and>
        products (snd (delete_category_handler public_path i s)) = products s \<and>
        (truthy (cat_image_url c) \<longrightarrow>
           files (snd (delete_category_handler public_path i s)) =
             files s - {public_path (field_value (cat_image_url c))}) \<and>
        (\<not> truthy (cat_image_url c) \<longrightarrow>
           files (snd (delete_category_handler public_path i s)) = files s)) \<and>
     (run_middleware [auth jwt_verify, admin] (incoming hdr) = Next req \<longrightarrow>
        delete_category jwt_verify public_path hdr i s = delete_category_handler public_path i s)"
proof (intro impI)
  assume f: "category_findByPk s i = Some c"
  then have k: "cat_id c = i"
    using find_key [of cat_id i "categories s" c] by (simp add: category_findByPk_def)
  show "(0 < productCount s i \<longrightarrow>
        delete_category_handler public_path i s =
          (\<lparr>status = 400, body = JObj [(''success'', JBool False),
             (''message'', JStr (''Cannot delete category with '' @ string_of_nat (productCount s i) @
                '' products. Please move or delete the products first.''))]\<rparr>, s) \<and>
        nat_of_string (string_of_nat (productCount s i)) = productCount s i) \<and>
     (productCount s i = 0 \<longrightarrow>
        fst (delete_category_handler public_path i s) =
          \<lparr>status = 200, body = JObj [(''success'', JBool True),
             (''message'', JStr ''Category deleted successfully'')]\<rparr> \<and>
        categories (snd (delete_category_handler public_path i s)) =
          filter (\<lambda>x. cat_id x \<noteq> i) (categories s) \<and>
        category_findByPk (snd (delete_category_handler public_path i s)) i = None \<and>
        products (snd (delete_category_handler public_path i s)) = products s \<and>
        (truthy (cat_image_url c) \<longrightarrow>
           files (snd (delete_category_handler public_path i s)) =
             files s - {public_path (field_value (cat_image_url c))}) \<and>
        (\<not> truthy (cat_image_url c) \<longrightarrow>
           files (snd (delete_category_handler public_path i s)) = files s)) \<and>
     (run_middleware [auth jwt_verify, admin] (incoming hdr) = Next req \<longrightarrow>
        delete_category jwt_verify public_path hdr i s = delete_category_handler public_path i s)"
    using f k
    by (auto simp: delete_category_handler_def delete_category_def fail_message_def ok_message_def
        send_def nat_of_string_of_nat category_destroy_def unlink_if_exists_def
        category_findByPk_def find_after_filter)
qed

lemma demo_counts:
  "category_findByPk demo_store 5 = Some demo_smart" "category_findByPk demo_store 6 = Some demo_led"
  "productCount demo_store 5 = 3" "productCount demo_store 6 = 0"
  by (simp_all add: category_findByPk_def productCount_def demo_store_def demo_smart_def demo_led_def
      demo_watch_def)

theorem delete_category_guard_witness:
  "delete_category demo_verify demo_public_path (Some ''Bearer admin-token'') 5 demo_store =
     (\<lparr>status = 400, body = JObj [(''success'', JBool False),
        (''message'', JStr ''Cannot delete category with 3 products. Please move or delete the products first.'')]\<rparr>,
      demo_store) \<and>
   fst (delete_category demo_verify demo_public_path (Some ''Bearer admin-token'') 6 demo_store) =
     \<lparr>status = 200, body = JObj [(''success'', JBool True),
        (''message'', JStr ''Category deleted successfully'')]\<rparr> \<and>
   categories (snd (delete_category demo_verify demo_public_path (Some ''Bearer admin-token'') 6 demo_store)) =
     [demo_smart] \<and>
   files (snd (delete_category demo_verify demo_public_path (Some ''Bearer admin-token'') 6 demo_store)) =
     {''public/uploads/categories/smart.png''}"
  using delete_category_guard [where s = demo_store and i = 5 and c = demo_smart
      and public_path = demo_public_path and jwt_verify = demo_verify
      and hdr = "Some ''Bearer admin-token''"]
    delete_category_guard [where s = demo_store and i = 6 and c = demo_led
      and public_path = demo_public_path and jwt_verify = demo_verify
      and hdr = "Some ''Bearer admin-token''"]
    demo_admin_passes demo_counts
  apply (simp add: string_of_nat.simps digit_char_def)
  apply (simp add: demo_store_def demo_smart_def demo_led_def truthy_def field_value_def demo_public_path_def)
  apply auto
  done







lemma demo_contact_blank:
  "blank ''  ''" "\<not> blank ''Bo''" "\<not> blank ''Which battery fits model 1894?''"
  by (simp_all add: blank_def white_space_def)



text \<open>
  In general, a submission that passes the route and that \<^verbatim>\<open>ContactMessage.create\<close>
  refuses is answered 500 and stores nothing. An email address or a phone number that
  does not fit its column is refused like a name that does not, and a value whose excess
  is spaces is cut.
\<close>

lemma contact_submission_refused:
  "contact_errors isEmail b = [] \<Longrightarrow> new_contact_message model_isEmail (message_seq s) now b = None \<Longrightarrow>
     submit_contact isEmail model_isEmail now b s = (server_error, s)"
  by (simp add: submit_contact_def)

lemma varchar_examples:
  "varchar 3 ''abc'' = Some ''abc''" "varchar 3 ''abcd'' = None" "varchar 3 ''abc  '' = Some ''abc''"
  by (simp_all add: varchar_def)

lemma contact_submission_too_long:
  "new_contact_message demo_isEmail 4 400
     ((demo_contact ''Bo'')\<lparr>ct_email := Some (replicate 90 (CHR ''b'') @ ''@example.com'')\<rparr>) = None"
  "new_contact_message demo_isEmail 4 400
     ((demo_contact ''Bo'')\<lparr>ct_phone := Some (replicate 51 (CHR ''5''))\<rparr>) = None"
proof -
  have e: "varchar 100 (replicate 90 (CHR ''b'') @ ''@example.com'') = None"
    by (simp add: varchar_def list_all_iff)
  have p: "varchar_opt 50 (or_else_opt (Some (replicate 51 (CHR ''5''))) None) = None"
    by (simp add: varchar_opt_def varchar_def or_else_opt_def list_all_iff)
  have v: "varchar 100 ''Bo'' = Some ''Bo''" "varchar 100 ''bo@example.com'' = Some ''bo@example.com''"
    by (simp_all add: varchar_def)
  show "new_contact_message demo_isEmail 4 400
     ((demo_contact ''Bo'')\<lparr>ct_email := Some (replicate 90 (CHR ''b'') @ ''@example.com'')\<rparr>) = None"
    using demo_contact_blank e v
    by (simp add: new_contact_message_def demo_contact_def field_value_def)
  show "new_contact_message demo_isEmail 4 400
     ((demo_contact ''Bo'')\<lparr>ct_phone := Some (replicate 51 (CHR ''5''))\<rparr>) = None"
    using demo_contact_blank p v
    by (simp add: new_contact_message_def demo_contact_def field_value_def demo_isEmail_def)
qed

section \<open>Properties of pagination\<close>

lemma to_double_exact: "n < 2 ^ 53 \<Longrightarrow> to_double n = n"
  by (simp add: to_double_def)

lemma parseInt_number_plain: "n < 10 ^ 21 \<Longrightarrow> parseInt_number n = n"
  by (simp add: parseInt_number_def)

lemma query_offset_exact:
  assumes "0 \<le> offset_of p l" and "offset_of p l < 2 ^ 53"
  shows "int (query_offset p l) = offset_of p l"
proof -
  from assms have b: "nat (offset_of p l) < 2 ^ 53" by (simp add: nat_less_iff)
  then have "nat (offset_of p l) < 10 ^ 21" by simp
  with b assms show ?thesis
    by (simp add: query_offset_def to_double_exact parseInt_number_plain)
qed

lemma large_offset_bits: "bit_length 1180591620717411041280 = 70"
  by (simp add: bit_length.simps)

lemma large_offset_is_double: "to_double 1180591620717411041280 = 1180591620717411041280"
  by (simp add: to_double_def large_offset_bits Let_def)

lemma next_round_bits: "bit_length 2000000000000000000000 = 71"
  by (simp add: bit_length.simps)

lemma next_round_is_double: "to_double 2000000000000000000000 = 2000000000000000000000"
  by (simp add: to_double_def next_round_bits Let_def)

lemma large_offset_reads_as_1: "parseInt_number 1180591620717411041280 = 1"
proof -
  have "leading_digit 1180591620717411041280 = 1"
    by (simp add: leading_digit.simps)
  moreover have "length (string_of_nat 1180591620717411041280) = 22"
    by (simp add: string_of_nat.simps)
  ultimately show ?thesis
    by (simp add: parseInt_number_def first_written_digit_def next_round_is_double)
qed

lemma large_query_offset: "query_offset (Some 9007199254740991) (Some 131072) = 1"
  by (simp add: query_offset_def offset_of_def page_of_def limit_of_def large_offset_is_double
      large_offset_reads_as_1)


lemma beyond_last_page:
  assumes l: "0 < l" and p: "\<lceil>real n / real l\<rceil> < int p"
  shows "n \<le> nat ((int p - 1) * int l)"
proof -
  from p have "\<lceil>real n / real l\<rceil> \<le> int p - 1" by simp
  then have "real_of_int \<lceil>real n / real l\<rceil> \<le> real_of_int (int p - 1)"
    by (simp only: of_int_le_iff)
  moreover have "real n / real l \<le> real_of_int \<lceil>real n / real l\<rceil>"
    by (rule le_of_int_ceiling)
  ultimately have "real n / real l \<le> real_of_int (int p - 1)" by linarith
  with l have "real n \<le> real_of_int (int p - 1) * real l" by (simp add: pos_divide_le_eq)
  then have "real_of_int (int n) \<le> real_of_int ((int p - 1) * int l)" by simp
  then have "int n \<le> (int p - 1) * int l" by (simp only: of_int_le_iff)
  then show ?thesis by simp
qed

lemma ceiling_div_nonneg: "0 \<le> \<lceil>real n / real l\<rceil>"
proof -
  have "(0::real) \<le> real n / real l" by simp
  then have "\<lceil>0::real\<rceil> \<le> \<lceil>real n / real l\<rceil>" by (rule ceiling_mono)
  then show ?thesis by simp
qed

lemma page_rows_length: "page_rows p l rows = Some page \<Longrightarrow> length page \<le> limit_of l"
  by (auto simp: page_rows_def split: if_splits)

lemma offset_nonneg: "0 < page_of p \<Longrightarrow> \<not> offset_of p l < 0"
  by (simp add: offset_of_def not_less zero_le_mult_iff)

lemma order_by_name:
  "srt = Some ''name-asc'' \<or> srt = Some ''name-desc'' \<Longrightarrow>
     \<exists>ordered. order_products (resolve_sort srt) ps = Some ordered \<and> length ordered = length ps"
  by (auto simp: resolve_sort_def)

lemma length_le_sum_list: "(\<And>x. 1 \<le> f x) \<Longrightarrow> length xs \<le> sum_list (map f xs)"
proof (induction xs)
  case Nil then show ?case by simp
next
  case (Cons x xs)
  from Cons.prems have "1 \<le> f x" .
  moreover from Cons.prems have "length xs \<le> sum_list (map f xs)" by (rule Cons.IH)
  ultimately show ?case by simp
qed

lemma joined_rows_images:
  "joined_rows s = (\<lambda>p. max 1 (length (filter (\<lambda>im. img_product_id im = p_id p) (images s))))"
  by (simp add: fun_eq_iff joined_rows_def product_images_def)

lemma matching_le_count: "length (matching_products ilike q s) \<le> product_count ilike q s"
  unfolding product_count_def
  by (rule length_le_sum_list) (simp add: joined_rows_def)

text \<open>
  The count is the number of matching products exactly when no matching product has two
  images or more.
\<close>

lemma sum_list_ones: "list_all (\<lambda>x. f x = 1) xs \<Longrightarrow> sum_list (map f xs) = length xs"
  by (induction xs) simp_all

lemma product_count_without_galleries:
  "list_all (\<lambda>p. length (product_images s p) \<le> 1) (matching_products ilike q s) \<Longrightarrow>
     product_count ilike q s = length (matching_products ilike q s)"
proof -
  assume "list_all (\<lambda>p. length (product_images s p) \<le> 1) (matching_products ilike q s)"
  then have "list_all (\<lambda>p. joined_rows s p = 1) (matching_products ilike q s)"
    by (auto simp: list_all_iff joined_rows_def max_def)
  then show ?thesis
    unfolding product_count_def by (rule sum_list_ones)
qed

text \<open>
  The product list ordered by creation time, which is the default, and the message list
  never carry pagination metadata: their answer is 500.
\<close>

lemma product_list_by_createdAt:
  "q_sort q \<noteq> Some ''name-asc'' \<Longrightarrow> q_sort q \<noteq> Some ''name-desc'' \<Longrightarrow>
     list_products ilike q s = server_error"
  by (simp add: list_products_def resolve_sort_def)

lemma message_list_is_rejected:
  "run_middleware [auth jwt_verify, admin] (incoming hdr) = Next req \<Longrightarrow>
     list_messages jwt_verify hdr mq s = server_error"
  by (simp add: list_messages_def list_messages_handler_def)

text \<open>
  The product list ordered by name, for a positive \<open>page\<close> and \<open>limit\<close> and an offset that
  the store accepts: the answer is 200 with at most \<open>limit\<close> products, \<open>total\<close> the count
  over the join with the images of the products that match the category and the search
  filter, and \<open>totalPages = \<lceil>total / limit\<rceil>\<close>.
\<close>

lemma product_list_by_name:
  assumes n: "q_sort q = Some ''name-asc'' \<or> q_sort q = Some ''name-desc''"
    and p: "0 < page_of (q_page q)" and l: "0 < limit_of (q_limit q)"
    and b: "limit_of (q_limit q) < 2 ^ 63" "query_offset (q_page q) (q_limit q) < 2 ^ 63"
  shows "\<exists>rows. list_products ilike q s =
        \<lparr>status = 200, body = JObj [(''success'', JBool True), (''products'', JArr rows),
           (''pagination'', JObj [(''total'', JNum (int (product_count ilike q s))),
              (''page'', JNum (int (page_of (q_page q)))),
              (''limit'', JNum (int (limit_of (q_limit q)))),
              (''totalPages'', JNum \<lceil>real (product_count ilike q s) /
                                     real (limit_of (q_limit q))\<rceil>)])]\<rparr> \<and>
        length rows \<le> limit_of (q_limit q) \<and>
        product_count ilike q s =
          sum_list (map (\<lambda>p. max 1 (length (filter (\<lambda>im. img_product_id im = p_id p) (images s))))
            (filter (\<lambda>p. matches_category s (q_category q) p \<and> matches_search ilike (q_search q) p)
               (products s)))"
proof -
  from order_by_name [OF n] obtain ordered
    where o: "order_products (resolve_sort (q_sort q)) (matching_products ilike q s) = Some ordered"
    by blast
  have w: "page_rows (q_page q) (q_limit q) ordered =
      Some (take (limit_of (q_limit q)) (drop (query_offset (q_page q) (q_limit q)) ordered))"
    using offset_nonneg [OF p, of "q_limit q"] b by (simp add: page_rows_def)
  have r: "list_products ilike q s =
        \<lparr>status = 200, body = JObj [(''success'', JBool True),
           (''products'', JArr (map (product_with_relations s)
              (take (limit_of (q_limit q)) (drop (query_offset (q_page q) (q_limit q)) ordered)))),
           (''pagination'', JObj [(''total'', JNum (int (product_count ilike q s))),
              (''page'', JNum (int (page_of (q_page q)))),
              (''limit'', JNum (int (limit_of (q_limit q)))),
              (''totalPages'', JNum \<lceil>real (product_count ilike q s) /
                                     real (limit_of (q_limit q))\<rceil>)])]\<rparr>"
    using l by (simp add: list_products_def o w send_def pagination_def totalPages_def)
  have c: "product_count ilike q s =
          sum_list (map (\<lambda>p. max 1 (length (filter (\<lambda>im. img_product_id im = p_id p) (images s))))
            (filter (\<lambda>p. matches_category s (q_category q) p \<and> matches_search ilike (q_search q) p)
               (products s)))"
    by (simp add: product_count_def matching_products_def joined_rows_images)
  have "length (map (product_with_relations s)
          (take (limit_of (q_limit q)) (drop (query_offset (q_page q) (q_limit q)) ordered)))
        \<le> limit_of (q_limit q)" by simp
  with r c show ?thesis by blast
qed

text \<open>
  A product-list request ordered by name whose page lies beyond \<open>totalPages\<close> is answered
  200 with an empty list of products and the pagination metadata of the count, as long
  as \<open>limit\<close> and \<open>(page - 1) \<times> limit\<close> stay below \<open>2 ^ 53\<close>.
\<close>

lemma page_beyond_last_is_empty_while_exact:
  "(q_sort q = Some ''name-asc'' \<or> q_sort q = Some ''name-desc'') \<and>
   0 < limit_of (q_limit q) \<and> limit_of (q_limit q) < 2 ^ 53 \<and>
   offset_of (q_page q) (q_limit q) < 2 ^ 53 \<and>
   \<lceil>real (product_count ilike q s) / real (limit_of (q_limit q))\<rceil> < int (page_of (q_page q)) \<longrightarrow>
     list_products ilike q s =
       \<lparr>status = 200, body = JObj [(''success'', JBool True), (''products'', JArr []),
          (''pagination'', JObj [(''total'', JNum (int (product_count ilike q s))),
             (''page'', JNum (int (page_of (q_page q)))),
             (''limit'', JNum (int (limit_of (q_limit q)))),
             (''totalPages'', JNum \<lceil>real (product_count ilike q s) /
                                    real (limit_of (q_limit q))\<rceil>)])]\<rparr>"
proof
  assume h: "(q_sort q = Some ''name-asc'' \<or> q_sort q = Some ''name-desc'') \<and>
   0 < limit_of (q_limit q) \<and> limit_of (q_limit q) < 2 ^ 53 \<and>
   offset_of (q_page q) (q_limit q) < 2 ^ 53 \<and>
   \<lceil>real (product_count ilike q s) / real (limit_of (q_limit q))\<rceil> < int (page_of (q_page q))"
  have "0 \<le> \<lceil>real (product_count ilike q s) / real (limit_of (q_limit q))\<rceil>"
    by (rule ceiling_div_nonneg)
  with h have pos: "0 < page_of (q_page q)" by linarith
  from h order_by_name [of "q_sort q" "matching_products ilike q s"] obtain ordered
    where o: "order_products (resolve_sort (q_sort q)) (matching_products ilike q s) = Some ordered"
      and len: "length ordered = length (matching_products ilike q s)"
    by blast
  have "product_count ilike q s \<le> nat (offset_of (q_page q) (q_limit q))"
    using beyond_last_page [of "limit_of (q_limit q)" "product_count ilike q s" "page_of (q_page q)"] h
    by (simp add: offset_of_def)
  moreover have e: "int (query_offset (q_page q) (q_limit q)) = offset_of (q_page q) (q_limit q)"
    using query_offset_exact [of "q_page q" "q_limit q"] offset_nonneg [OF pos, of "q_limit q"] h
    by simp
  ultimately have "length ordered \<le> query_offset (q_page q) (q_limit q)"
    using matching_le_count [of ilike q s] len by linarith
  moreover from e h have "int (query_offset (q_page q) (q_limit q)) < 2 ^ 53" by simp
  then have "query_offset (q_page q) (q_limit q) < 2 ^ 63" by (simp add: nat_less_iff [symmetric] flip: of_nat_less_iff)
  moreover from h have "limit_of (q_limit q) < 2 ^ 63" by simp
  ultimately have "page_rows (q_page q) (q_limit q) ordered = Some []"
    using offset_nonneg [OF pos, of "q_limit q"] by (simp add: page_rows_def)
  with h o show "list_products ilike q s =
       \<lparr>status = 200, body = JObj [(''success'', JBool True), (''products'', JArr []),
          (''pagination'', JObj [(''total'', JNum (int (product_count ilike q s))),
             (''page'', JNum (int (page_of (q_page q)))),
             (''limit'', JNum (int (limit_of (q_limit q)))),
             (''totalPages'', JNum \<lceil>real (product_count ilike q s) /
                                    real (limit_of (q_limit q))\<rceil>)])]\<rparr>"
    by (simp add: list_products_def send_def pagination_def totalPages_def)
qed

lemma demo_matching:
  "matching_products ilike (demo_query_by_name p l) demo_gallery =
     [demo_watch 10 ''w-a'' 150, demo_watch 11 ''w-b'' 160, demo_watch 12 ''w-c'' 170]"
  by (simp add: matching_products_def demo_query_by_name_def matches_category_def
      matches_search_def truthy_def field_value_def product_category_def category_findByPk_def
      demo_store_def demo_gallery_def demo_watch_def demo_smart_def demo_led_def)

lemma demo_count: "product_count ilike (demo_query_by_name p l) demo_gallery = 4"
proof -
  have "product_count ilike (demo_query_by_name p l) demo_gallery =
      sum_list (map (joined_rows demo_gallery)
        [demo_watch 10 ''w-a'' 150, demo_watch 11 ''w-b'' 160, demo_watch 12 ''w-c'' 170])"
    by (simp only: product_count_def demo_matching)
  also have "\<dots> = 4"
    by (simp add: joined_rows_def product_images_def demo_gallery_def demo_store_def demo_watch_def)
  finally show ?thesis .
qed

lemma demo_ordered:
  "order_products (resolve_sort (q_sort (demo_query_by_name p l)))
     [demo_watch 10 ''w-a'' 150, demo_watch 11 ''w-b'' 160, demo_watch 12 ''w-c'' 170] =
   Some [demo_watch 10 ''w-a'' 150, demo_watch 11 ''w-b'' 160, demo_watch 12 ''w-c'' 170]"
  by (simp add: demo_query_by_name_def resolve_sort_def demo_watch_def)

text \<open>
  C2, on the example data. \<^verbatim>\<open>GET /api/products?category=smart-watch&page=2&limit=2\<close> runs
  with the default order, by \<^verbatim>\<open>createdAt\<close>, and is answered 500 with no pagination
  metadata; so is \<^verbatim>\<open>GET /api/contact/messages\<close> sent by an administrator, with a
  \<^verbatim>\<open>status\<close> filter or without. \<^verbatim>\<open>GET /api/products?category=smart-watch&sort=name-asc&page=1&limit=3\<close>
  on the store where product 11 has two images is answered 200 with the three products
  of the category, and with \<open>total = 4\<close> and \<open>totalPages = 2\<close>: the count is taken over
  the join with the images, while three products match the filter, all on page 1.
\<close>

theorem list_requests_on_example_data:
  "list_products (\<lambda>pat v. False) (demo_query 2 2) demo_store =
     \<lparr>status = 500, body = JObj [(''success'', JBool False), (''message'', JStr ''Server error'')]\<rparr> \<and>
   list_messages demo_verify (Some ''Bearer admin-token'')
       \<lparr>mq_page = None, mq_limit = Some 2, mq_status = Some ''unread''\<rparr> demo_store =
     \<lparr>status = 500, body = JObj [(''success'', JBool False), (''message'', JStr ''Server error'')]\<rparr> \<and>
   list_messages demo_verify (Some ''Bearer admin-token'')
       \<lparr>mq_page = None, mq_limit = None, mq_status = None\<rparr> demo_store =
     \<lparr>status = 500, body = JObj [(''success'', JBool False), (''message'', JStr ''Server error'')]\<rparr> \<and>
   matching_products (\<lambda>pat v. False) (demo_query_by_name 1 3) demo_gallery =
     [demo_watch 10 ''w-a'' 150, demo_watch 11 ''w-b'' 160, demo_watch 12 ''w-c'' 170] \<and>
   list_products (\<lambda>pat v. False) (demo_query_by_name 1 3) demo_gallery =
     \<lparr>status = 200, body = JObj [(''success'', JBool True),
        (''products'', JArr [product_with_relations demo_gallery (demo_watch 10 ''w-a'' 150),
                             product_with_relations demo_gallery (demo_watch 11 ''w-b'' 160),
                             product_with_relations demo_gallery (demo_watch 12 ''w-c'' 170)]),
        (''pagination'', JObj [(''total'', JNum 4), (''page'', JNum 1), (''limit'', JNum 3),
           (''totalPages'', JNum 2)])]\<rparr>"
proof -
  have a: "list_products (\<lambda>pat v. False) (demo_query 2 2) demo_store =
     \<lparr>status = 500, body = JObj [(''success'', JBool False), (''message'', JStr ''Server error'')]\<rparr>"
    by (simp add: list_products_def demo_query_def resolve_sort_def server_error_def fail_message_def
        send_def)
  have b: "list_messages demo_verify (Some ''Bearer admin-token'') mq demo_store =
     \<lparr>status = 500, body = JObj [(''success'', JBool False), (''message'', JStr ''Server error'')]\<rparr>" for mq
    using demo_admin_passes
    by (simp add: list_messages_def list_messages_handler_def server_error_def fail_message_def send_def)
  have w: "page_rows (q_page (demo_query_by_name 1 3)) (q_limit (demo_query_by_name 1 3))
             [demo_watch 10 ''w-a'' 150, demo_watch 11 ''w-b'' 160, demo_watch 12 ''w-c'' 170] =
           Some [demo_watch 10 ''w-a'' 150, demo_watch 11 ''w-b'' 160, demo_watch 12 ''w-c'' 170]"
    by (simp add: page_rows_def demo_query_by_name_def offset_of_def page_of_def limit_of_def
        query_offset_def to_double_def parseInt_number_def)
  have t: "\<lceil>4 / 3 :: real\<rceil> = 2"
    by (simp add: ceiling_eq_iff)
  have c: "list_products (\<lambda>pat v. False) (demo_query_by_name 1 3) demo_gallery =
     \<lparr>status = 200, body = JObj [(''success'', JBool True),
        (''products'', JArr [product_with_relations demo_gallery (demo_watch 10 ''w-a'' 150),
                             product_with_relations demo_gallery (demo_watch 11 ''w-b'' 160),
                             product_with_relations demo_gallery (demo_watch 12 ''w-c'' 170)]),
        (''pagination'', JObj [(''total'', JNum 4), (''page'', JNum 1), (''limit'', JNum 3),
           (''totalPages'', JNum 2)])]\<rparr>"
    unfolding list_products_def demo_matching demo_ordered option.case w demo_count
    using t by (simp add: send_def pagination_def totalPages_def demo_query_by_name_def page_of_def
        limit_of_def)
  from a b c demo_matching [of "\<lambda>pat v. False" 1 3] show ?thesis by simp
qed

text \<open>
  C3. \<^verbatim>\<open>GET /api/products?category=smart-watch&sort=name-asc&page=9007199254740991&limit=131072\<close>
  on the example store with the images of product 11. Three products match and the count
  is 4, so \<open>totalPages\<close> is 1 and the page lies far beyond it. The offset
  \<open>9007199254740990 \<times> 131072 = 1180591620717411041280\<close> is a number JavaScript holds
  exactly and writes as \<^verbatim>\<open>1.180591620717411e+21\<close>, of which \<^verbatim>\<open>parseInt\<close> reads 1: the query
  skips one row and the answer carries the other two products, not an empty list.
\<close>

theorem page_beyond_last_returns_rows:
  "list_products (\<lambda>pat v. False) (demo_query_by_name 9007199254740991 131072) demo_gallery =
     \<lparr>status = 200, body = JObj [(''success'', JBool True),
        (''products'', JArr [product_with_relations demo_gallery (demo_watch 11 ''w-b'' 160),
                             product_with_relations demo_gallery (demo_watch 12 ''w-c'' 170)]),
        (''pagination'', JObj [(''total'', JNum 4), (''page'', JNum 9007199254740991),
           (''limit'', JNum 131072), (''totalPages'', JNum 1)])]\<rparr>"
proof -
  have o: "query_offset (q_page (demo_query_by_name 9007199254740991 131072))
             (q_limit (demo_query_by_name 9007199254740991 131072)) = 1"
    by (simp add: demo_query_by_name_def large_query_offset)
  have n: "\<not> offset_of (q_page (demo_query_by_name 9007199254740991 131072))
             (q_limit (demo_query_by_name 9007199254740991 131072)) < 0"
    by (simp add: demo_query_by_name_def offset_of_def page_of_def limit_of_def)
  have l: "limit_of (q_limit (demo_query_by_name 9007199254740991 131072)) = 131072"
    by (simp add: demo_query_by_name_def limit_of_def)
  have w: "page_rows (q_page (demo_query_by_name 9007199254740991 131072))
             (q_limit (demo_query_by_name 9007199254740991 131072))
             [demo_watch 10 ''w-a'' 150, demo_watch 11 ''w-b'' 160, demo_watch 12 ''w-c'' 170] =
           Some [demo_watch 11 ''w-b'' 160, demo_watch 12 ''w-c'' 170]"
    unfolding page_rows_def o l using n by simp
  have t: "\<lceil>4 / 131072 :: real\<rceil> = 1"
    by (simp add: ceiling_eq_iff)
  show ?thesis
    unfolding list_products_def demo_matching demo_ordered option.case w demo_count
    using t by (simp add: send_def pagination_def totalPages_def l)
       (simp add: demo_query_by_name_def page_of_def)
qed

text \<open>
  With \<^verbatim>\<open>limit=2048\<close> in place of \<^verbatim>\<open>limit=131072\<close> the offset is \<open>18446744073709547520\<close>,
  which \<^verbatim>\<open>parseInt\<close> reads back as it is and the store rejects as no 64-bit integer: the
  answer is 500.
\<close>

lemma offset_beyond_bigint_bits: "bit_length 18446744073709547520 = 64"
  by (simp add: bit_length.simps)

lemma offset_beyond_bigint: "query_offset (Some 9007199254740991) (Some 2048) = 18446744073709547520"
  by (simp add: query_offset_def offset_of_def page_of_def limit_of_def to_double_def
      offset_beyond_bigint_bits Let_def parseInt_number_def)

lemma page_beyond_last_is_rejected:
  "list_products (\<lambda>pat v. False) (demo_query_by_name 9007199254740991 2048) demo_gallery =
     \<lparr>status = 500, body = JObj [(''success'', JBool False), (''message'', JStr ''Server error'')]\<rparr>"
proof -
  have "page_rows (q_page (demo_query_by_name 9007199254740991 2048))
          (q_limit (demo_query_by_name 9007199254740991 2048)) rows = None" for rows :: "product list"
    by (simp add: page_rows_def demo_query_by_name_def offset_beyond_bigint)
  then show ?thesis
    unfolding list_products_def demo_matching demo_ordered option.case
    by (simp add: server_error_def fail_message_def send_def)
qed

section \<open>Properties of login\<close>

text \<open>
  C5 (as amended). A login request with a non-empty username and a non-empty password:
  when no user has the username, and when the password does not verify against the
  stored user, the answer is the same 401 "Invalid credentials"; when it verifies, the
  answer is 200 with the user's \<open>id\<close>, \<open>username\<close>, \<open>email\<close>, \<open>is_admin\<close> and a token signed
  over exactly these four claims, so that any verifier that decodes what was signed
  returns them. A request that fails validation is answered 400, whatever the store holds.
\<close>

theorem login_outcomes:
  "(truthy (lg_username b) \<and> truthy (lg_password b) \<longrightarrow>
      (user_findOne_username s (field_value (lg_username b)) = None \<longrightarrow>
         login jwt_sign comparePassword b s =
           \<lparr>status = 401, body = JObj [(''success'', JBool False),
              (''message'', JStr ''Invalid credentials'')]\<rparr>) \<and>
      (user_findOne_username s (field_value (lg_username b)) = Some u \<and>
       \<not> comparePassword u (field_value (lg_password b)) \<longrightarrow>
         login jwt_sign comparePassword b s =
           \<lparr>status = 401, body = JObj [(''success'', JBool False),
              (''message'', JStr ''Invalid credentials'')]\<rparr>) \<and>
      (user_findOne_username s (field_value (lg_username b)) = Some u \<and>
       comparePassword u (field_value (lg_password b)) \<longrightarrow>
         login jwt_sign comparePassword b s =
           \<lparr>status = 200, body = JObj [(''success'', JBool True),
              (''token'', JStr (jwt_sign (Payload (Some
                  \<lparr>c_id = u_id u, c_username = u_username u, c_email = u_email u,
                   c_is_admin = u_is_admin u\<rparr>)))),
              (''user'', JObj [(''id'', JNum (u_id u)), (''username'', JStr (u_username u)),
                 (''email'', JStr (u_email u)), (''is_admin'', JBool (u_is_admin u))])]\<rparr> \<and>
         (jwt_verify (jwt_sign (Payload (Some (claims_of u)))) = Some (Payload (Some (claims_of u))) \<longrightarrow>
            Option.bind (token_of (login jwt_sign comparePassword b s)) jwt_verify =
              Some (Payload (Some \<lparr>c_id = u_id u, c_username = u_username u, c_email = u_email u,
                                   c_is_admin = u_is_admin u\<rparr>))))) \<and>
   (\<not> (truthy (lg_username b) \<and> truthy (lg_password b)) \<longrightarrow>
      status (login jwt_sign comparePassword b s) = 400 \<and>
      login jwt_sign comparePassword b s = login jwt_sign comparePassword b t)"
  by (auto simp: login_def login_errors_def check_def validation_failed_def fail_message_def send_def
      claims_of_def claims_toJSON_def token_of_def)

lemma demo_find_admin: "user_findOne_username demo_store ''admin'' = Some demo_admin"
  by (simp add: user_findOne_username_def demo_store_def demo_admin_def)

lemma demo_find_ghost: "user_findOne_username demo_store ''ghost'' = None"
  by (simp add: user_findOne_username_def demo_store_def demo_admin_def demo_clerk_def)

theorem login_outcomes_witness:
  "login demo_sign demo_compare \<lparr>lg_username = Some ''admin'', lg_password = Some ''admin123''\<rparr> demo_store =
     \<lparr>status = 200, body = JObj [(''success'', JBool True), (''token'', JStr ''admin-token''),
        (''user'', JObj [(''id'', JNum 1), (''username'', JStr ''admin''),
           (''email'', JStr ''admin@example.com''), (''is_admin'', JBool True)])]\<rparr> \<and>
   Option.bind (token_of (login demo_sign demo_compare
        \<lparr>lg_username = Some ''admin'', lg_password = Some ''admin123''\<rparr> demo_store)) demo_verify =
     Some (Payload (Some \<lparr>c_id = 1, c_username = ''admin'', c_email = ''admin@example.com'',
                          c_is_admin = True\<rparr>)) \<and>
   login demo_sign demo_compare \<lparr>lg_username = Some ''admin'', lg_password = Some ''letmein''\<rparr> demo_store =
     \<lparr>status = 401, body = JObj [(''success'', JBool False), (''message'', JStr ''Invalid credentials'')]\<rparr> \<and>
   login demo_sign demo_compare \<lparr>lg_username = Some ''ghost'', lg_password = Some ''letmein''\<rparr> demo_store =
     \<lparr>status = 401, body = JObj [(''success'', JBool False), (''message'', JStr ''Invalid credentials'')]\<rparr> \<and>
   status (login demo_sign demo_compare \<lparr>lg_username = Some ''ghost'', lg_password = None\<rparr> demo_store) = 400"
  using login_outcomes [where b = "\<lparr>lg_username = Some ''admin'', lg_password = Some ''admin123''\<rparr>"
      and s = demo_store and u = demo_admin and jwt_sign = demo_sign and comparePassword = demo_compare
      and jwt_verify = demo_verify]
    login_outcomes [where b = "\<lparr>lg_username = Some ''admin'', lg_password = Some ''letmein''\<rparr>"
      and s = demo_store and u = demo_admin and jwt_sign = demo_sign and comparePassword = demo_compare]
    login_outcomes [where b = "\<lparr>lg_username = Some ''ghost'', lg_password = Some ''letmein''\<rparr>"
      and s = demo_store and jwt_sign = demo_sign and comparePassword = demo_compare]
    login_outcomes [where b = "\<lparr>lg_username = Some ''ghost'', lg_password = None\<rparr>"
      and s = demo_store and t = demo_store and jwt_sign = demo_sign and comparePassword = demo_compare]
    demo_find_admin demo_find_ghost
  by (simp add: truthy_def field_value_def demo_compare_def demo_hash_def demo_admin_def demo_sign_def
      demo_verify_def claims_of_def demo_admin_claims_def token_of_def)

text \<open>
  C5 as stated covers every login request. With an unknown username and an empty
  password the answer is 400 with the validation errors, not 401 "Invalid credentials".
\<close>

theorem login_empty_password_is_400:
  "user_findOne_username demo_store ''ghost'' = None \<and>
   login demo_sign demo_compare \<lparr>lg_username = Some ''ghost'', lg_password = Some []\<rparr> demo_store =
     \<lparr>status = 400, body = JObj [(''success'', JBool False),
        (''errors'', JArr [JObj [(''msg'', JStr ''Password is required''), (''param'', JStr ''password'')]])]\<rparr>"
  by (simp add: demo_find_ghost login_def login_errors_def check_def truthy_def validation_failed_def
      send_def)

section \<open>Properties of partial updates\<close>

lemma find_replaced:
  "find (\<lambda>x. f x = i) xs = Some y \<Longrightarrow> f y' = i \<Longrightarrow>
   find (\<lambda>x. f x = i) (map (\<lambda>x. if f x = f y' then y' else x) xs) = Some y'"
  by (induction xs) (auto split: if_splits)

lemma products_unlink_images: "products (unlink_images public_path ims s) = products s"
  by (induction ims arbitrary: s) (simp_all add: unlink_images_def unlink_if_exists_def)

lemma products_process_uploads: "products (process_uploads public_path b uploaded p s) = products s"
  by (simp add: process_uploads_def image_bulkCreate_def image_destroy_where_def
      products_unlink_images)

lemma update_user_handler_row:
  assumes f: "user_findByPk s i = Some u"
  shows "user_findByPk (snd (update_user_handler hash i b s)) i = Some u \<or>
         user_findByPk (snd (update_user_handler hash i b s)) i = Some (updateData hash b u)"
proof -
  from f have k: "u_id u = i"
    using find_key [of u_id i "users s" u] by (simp add: user_findByPk_def)
  then have "u_id (updateData hash b u) = i" by (simp add: updateData_def)
  with f have "user_findByPk (user_save (updateData hash b u) s) i = Some (updateData hash b u)"
    using find_replaced [of u_id i "users s" u "updateData hash b u"]
    by (simp add: user_findByPk_def user_save_def)
  with f show ?thesis by (simp add: update_user_handler_def)
qed

lemma update_product_handler_row:
  assumes f: "product_findByPk s i = Some p"
  shows "(product_findByPk (snd (update_product_handler json_parse public_path now i b uploaded s)) i = Some p \<and>
          status (fst (update_product_handler json_parse public_path now i b uploaded s)) \<noteq> 200) \<or>
         (\<exists>specs. parsed_specifications json_parse b p = Some specs \<and>
            status (fst (update_product_handler json_parse public_path now i b uploaded s)) = 200 \<and>
            product_findByPk (snd (update_product_handler json_parse public_path now i b uploaded s)) i =
              Some (beforeUpdate now (product_values b specs p)))"
proof -
  from f have k: "p_id p = i"
    using find_key [of p_id i "products s" p] by (simp add: product_findByPk_def)
  have saved: "product_findByPk (process_uploads public_path b uploaded p
        (product_save (beforeUpdate now (product_values b specs p)) s)) i =
      Some (beforeUpdate now (product_values b specs p))" for specs
  proof -
    have "p_id (beforeUpdate now (product_values b specs p)) = i"
      using k by (simp add: beforeUpdate_def product_values_def)
    with f show ?thesis
      using find_replaced [of p_id i "products s" p "beforeUpdate now (product_values b specs p)"]
      by (simp add: product_findByPk_def product_save_def products_process_uploads)
  qed
  show ?thesis
  proof (cases "case up_category_id b of None \<Rightarrow> False | Some c \<Rightarrow> category_findByPk s c = None")
    case True
    with f show ?thesis
      by (simp add: update_product_handler_def fail_message_def send_def)
  next
    case False
    show ?thesis
    proof (cases "parsed_specifications json_parse b p")
      case None
      with f False show ?thesis
        by (simp add: update_product_handler_def server_error_def fail_message_def send_def)
    next
      case (Some specs)
      with f False saved [of specs] show ?thesis
        by (simp add: update_product_handler_def send_def)
    qed
  qed
qed

text \<open>
  C8 (as amended). Updating an existing user or product: whatever the outcome, the row
  with that id afterwards has the same id (and the same creation time, and for a product
  the same slug), and every field the request body omits keeps its stored value. A
  user's stored password differs afterwards only if a non-empty password was supplied,
  and is then its hash. The one stored field that changes without being supplied is the
  product's \<open>updated_at\<close>: a successful update sets it to the time of the update.
\<close>

theorem update_keeps_omitted_fields:
  "(user_findByPk s i = Some u \<longrightarrow>
      (\<exists>u'. user_findByPk (snd (update_user_handler hash i ub s)) i = Some u' \<and>
         u_id u' = u_id u \<and> u_createdAt u' = u_createdAt u \<and>
         (uu_username ub = None \<longrightarrow> u_username u' = u_username u) \<and>
         (uu_email ub = None \<longrightarrow> u_email u' = u_email u) \<and>
         (uu_is_admin ub = None \<longrightarrow> u_is_admin u' = u_is_admin u) \<and>
         (uu_password ub = None \<longrightarrow> u_password u' = u_password u) \<and>
         (u_password u' \<noteq> u_password u \<longrightarrow>
            truthy (uu_password ub) \<and> u_password u' = hash (field_value (uu_password ub))))) \<and>
   (product_findByPk s j = Some p \<longrightarrow>
      (\<exists>p'. product_findByPk (snd (update_product_handler json_parse public_path now j pb uploaded s)) j = Some p' \<and>
         p_id p' = p_id p \<and> p_slug p' = p_slug p \<and> p_created_at p' = p_created_at p \<and>
         (up_name pb = None \<longrightarrow> p_name p' = p_name p) \<and>
         (up_model_number pb = None \<longrightarrow> p_model_number p' = p_model_number p) \<and>
         (up_category_id pb = None \<longrightarrow> p_category_id p' = p_category_id p) \<and>
         (up_description pb = None \<longrightarrow> p_description p' = p_description p) \<and>
         (up_features pb = None \<longrightarrow> p_features p' = p_features p) \<and>
         (up_specifications pb = None \<longrightarrow> p_specifications p' = p_specifications p) \<and>
         (up_price pb = None \<longrightarrow> p_price p' = p_price p) \<and>
         (if status (fst (update_product_handler json_parse public_path now j pb uploaded s)) = 200
          then p_updated_at p' = now else p_updated_at p' = p_updated_at p))) \<and>
   (run_middleware [auth jwt_verify, admin] (incoming hdr) = Next req \<longrightarrow>
      update_user jwt_verify hash hdr i ub s = update_user_handler hash i ub s \<and>
      update_product jwt_verify json_parse public_path now hdr j pb uploaded s =
        update_product_handler json_parse public_path now j pb uploaded s)"
proof (intro conjI impI)
  assume f: "user_findByPk s i = Some u"
  from update_user_handler_row [OF f, of hash ub]
  show "\<exists>u'. user_findByPk (snd (update_user_handler hash i ub s)) i = Some u' \<and>
         u_id u' = u_id u \<and> u_createdAt u' = u_createdAt u \<and>
         (uu_username ub = None \<longrightarrow> u_username u' = u_username u) \<and>
         (uu_email ub = None \<longrightarrow> u_email u' = u_email u) \<and>
         (uu_is_admin ub = None \<longrightarrow> u_is_admin u' = u_is_admin u) \<and>
         (uu_password ub = None \<longrightarrow> u_password u' = u_password u) \<and>
         (u_password u' \<noteq> u_password u \<longrightarrow>
            truthy (uu_password ub) \<and> u_password u' = hash (field_value (uu_password ub)))"
    by (auto simp: updateData_def or_else_def truthy_def)
next
  assume f: "product_findByPk s j = Some p"
  from update_product_handler_row [OF f, of json_parse public_path now pb uploaded]
  show "\<exists>p'. product_findByPk (snd (update_product_handler json_parse public_path now j pb uploaded s)) j = Some p' \<and>
         p_id p' = p_id p \<and> p_slug p' = p_slug p \<and> p_created_at p' = p_created_at p \<and>
         (up_name pb = None \<longrightarrow> p_name p' = p_name p) \<and>
         (up_model_number pb = None \<longrightarrow> p_model_number p' = p_model_number p) \<and>
         (up_category_id pb = None \<longrightarrow> p_category_id p' = p_category_id p) \<and>
         (up_description pb = None \<longrightarrow> p_description p' = p_description p) \<and>
         (up_features pb = None \<longrightarrow> p_features p' = p_features p) \<and>
         (up_specifications pb = None \<longrightarrow> p_specifications p' = p_specifications p) \<and>
         (up_price pb = None \<longrightarrow> p_price p' = p_price p) \<and>
         (if status (fst (update_product_handler json_parse public_path now j pb uploaded s)) = 200
          then p_updated_at p' = now else p_updated_at p' = p_updated_at p)"
  proof (elim disjE conjE exE)
    assume "product_findByPk (snd (update_product_handler json_parse public_path now j pb uploaded s)) j = Some p"
      and "status (fst (update_product_handler json_parse public_path now j pb uploaded s)) \<noteq> 200"
    then show ?thesis by simp
  next
    fix specs
    assume ps: "parsed_specifications json_parse pb p = Some specs"
      and ok: "status (fst (update_product_handler json_parse public_path now j pb uploaded s)) = 200"
      and r: "product_findByPk (snd (update_product_handler json_parse public_path now j pb uploaded s)) j =
              Some (beforeUpdate now (product_values pb specs p))"
    have sp: "up_specifications pb = None \<longrightarrow> specs = p_specifications p"
      using ps by (auto simp: parsed_specifications_def truthy_def)
    show ?thesis
      using r ok sp
      by (simp add: beforeUpdate_def product_values_def or_else_def or_else_opt_def)
  qed
next
  assume "run_middleware [auth jwt_verify, admin] (incoming hdr) = Next req"
  then show "update_user jwt_verify hash hdr i ub s = update_user_handler hash i ub s"
    by (simp add: update_user_def)
next
  assume "run_middleware [auth jwt_verify, admin] (incoming hdr) = Next req"
  then show "update_product jwt_verify json_parse public_path now hdr j pb uploaded s =
        update_product_handler json_parse public_path now j pb uploaded s"
    by (simp add: update_product_def)
qed


lemma demo_rows:
  "user_findByPk demo_store 2 = Some demo_clerk"
  "product_findByPk demo_store 10 = Some (demo_watch 10 ''w-a'' 150)"
  by (simp_all add: user_findByPk_def product_findByPk_def demo_store_def demo_admin_def
      demo_clerk_def demo_watch_def)

theorem update_keeps_omitted_fields_witness:
  "map_option (\<lambda>u. (u_id u, u_username u, u_password u, u_is_admin u, u_createdAt u))
     (user_findByPk (snd (update_user demo_verify demo_hash (Some ''Bearer admin-token'') 2
        demo_user_patch demo_store)) 2) =
     Some (2, ''clerk'', ''$2b$10$654krelc'', False, 200) \<and>
   map_option (\<lambda>p. (p_id p, p_slug p, p_model_number p, p_category_id p, p_description p,
                     p_features p, p_specifications p, p_price p, p_created_at p))
     (product_findByPk (snd (update_product demo_verify (\<lambda>x. None) demo_public_path 999
        (Some ''Bearer admin-token'') 10 demo_product_patch [] demo_store)) 10) =
     Some (10, ''w-a'', Some ''1894'', Some 5, Some ''Digital watch'', None, None, Some ''19.99'', 150)"
proof -
  note t = update_keeps_omitted_fields [where s = demo_store and i = 2 and u = demo_clerk
      and hash = demo_hash and ub = demo_user_patch and j = 10 and p = "demo_watch 10 ''w-a'' 150"
      and json_parse = "\<lambda>x. None" and public_path = demo_public_path and now = 999
      and pb = demo_product_patch and uploaded = "[]" and jwt_verify = demo_verify
      and hdr = "Some ''Bearer admin-token''"]
  note tu = t [THEN conjunct1, THEN mp, OF demo_rows(1)]
  note tp = t [THEN conjunct2, THEN conjunct1, THEN mp, OF demo_rows(2)]
  note tr = t [THEN conjunct2, THEN conjunct2, THEN mp, OF demo_admin_passes]
  from tu have a: "map_option (\<lambda>u. (u_id u, u_username u, u_password u, u_is_admin u, u_createdAt u))
     (user_findByPk (snd (update_user_handler demo_hash 2 demo_user_patch demo_store)) 2) =
     Some (2, ''clerk'', ''$2b$10$654krelc'', False, 200)"
    by (elim exE conjE) (simp add: demo_user_patch_def demo_clerk_def)
  from tp have b: "map_option (\<lambda>p. (p_id p, p_slug p, p_model_number p, p_category_id p, p_description p,
                     p_features p, p_specifications p, p_price p, p_created_at p))
     (product_findByPk (snd (update_product_handler (\<lambda>x. None) demo_public_path 999 10
        demo_product_patch [] demo_store)) 10) =
     Some (10, ''w-a'', Some ''1894'', Some 5, Some ''Digital watch'', None, None, Some ''19.99'', 150)"
    by (elim exE conjE) (simp add: demo_product_patch_def demo_watch_def)
  from a b tr show ?thesis by simp
qed

text \<open>
  C8 as stated leaves every stored field that the body omits unchanged. A product update
  that supplies only a name is answered 200 and moves \<open>updated_at\<close> from 150 to the
  time of the update, 999.
\<close>

theorem update_product_touches_updated_at:
  "map_option p_updated_at (product_findByPk demo_store 10) = Some 150 \<and>
   fst (update_product demo_verify (\<lambda>x. None) demo_public_path 999 (Some ''Bearer admin-token'') 10
          demo_product_patch [] demo_store) =
     \<lparr>status = 200, body = JObj [(''success'', JBool True),
        (''product'', JObj [(''id'', JNum 10), (''name'', JStr ''Watch A''), (''slug'', JStr ''w-a''),
           (''model_number'', JStr ''1894''), (''description'', JStr ''Digital watch''),
           (''features'', JNull), (''specifications'', JNull), (''price'', JStr ''19.99''),
           (''category_id'', JNum 5), (''created_at'', JNum 150), (''updated_at'', JNum 999),
           (''category'', JObj [(''id'', JNum 5), (''name'', JStr ''Smart Watch''),
              (''slug'', JStr ''smart-watch'')]),
           (''images'', JArr [JObj [(''id'', JNum 1), (''image_url'', JStr ''/images/placeholder.jpg''),
              (''is_primary'', JBool True)]])])]\<rparr> \<and>
   map_option p_updated_at
     (product_findByPk (snd (update_product demo_verify (\<lambda>x. None) demo_public_path 999
        (Some ''Bearer admin-token'') 10 demo_product_patch [] demo_store)) 10) = Some 999"
  using demo_admin_passes
  by (simp add: update_product_def update_product_handler_def product_findByPk_def demo_store_def
      demo_watch_def demo_product_patch_def parsed_specifications_def truthy_def process_uploads_def
      product_save_def beforeUpdate_def product_values_def or_else_def or_else_opt_def send_def
      product_with_relations_def product_toJSON_def json_opt_def category_summary_def
      product_category_def category_findByPk_def demo_smart_def demo_led_def product_images_def
      image_summary_def)

section \<open>Password hashes never leave the user routes\<close>

lemma public_user_no_password:
  "\<not> has_key_fields ''password'' (exclude [''password''] (user_toJSON u))"
  by (simp add: exclude_def user_toJSON_def)

lemma public_user_hide:
  "exclude [''password''] (user_toJSON (hide_password u)) = exclude [''password''] (user_toJSON u)"
  by (simp add: exclude_def user_toJSON_def hide_password_def)

lemma fail_message_no_password: "\<not> has_key ''password'' (body (fail_message code msg))"
  by (simp add: fail_message_def send_def)

lemma errors_no_password:
  "\<not> has_key_list ''password'' (map (\<lambda>e. JObj [(''msg'', JStr (snd e)), (''param'', JStr (fst e))]) errs)"
  by (induction errs) simp_all

lemma validation_failed_no_password: "\<not> has_key ''password'' (body (validation_failed errs))"
  by (simp add: validation_failed_def send_def errors_no_password)

lemma gate_no_password:
  "run_middleware [auth jwt_verify, admin] (incoming hdr) = Respond r \<Longrightarrow>
   \<not> has_key ''password'' (body r)"
  by (auto simp: auth_def admin_def internal_server_error_def fail_message_def send_def
      split: option.splits if_splits middleware_result.splits)

lemma users_no_password:
  "\<not> has_key_list ''password'' (map (\<lambda>u. JObj (exclude [''password''] (user_toJSON u))) us)"
  by (induction us) (simp_all add: public_user_no_password)

lemma find_hidden:
  assumes "map hide_password xs = map hide_password ys"
    and "\<And>u. P (hide_password u) = P u"
  shows "map_option hide_password (find P xs) = map_option hide_password (find P ys)"
  using assms(1)
proof (induction xs arbitrary: ys)
  case Nil
  then show ?case by simp
next
  case (Cons x xs)
  then obtain y ys' where ys: "ys = y # ys'" by (cases ys) auto
  with Cons.prems have h: "hide_password x = hide_password y" and t: "map hide_password xs = map hide_password ys'"
    by simp_all
  from h assms(2) have "P x = P y" by metis
  with Cons.IH [OF t] h ys show ?case by simp
qed

lemma insort_hidden:
  "map hide_password (insort_key u_createdAt x xs) =
   insort_key u_createdAt (hide_password x) (map hide_password xs)"
  by (induction xs) (simp_all add: hide_password_def)

lemma sort_hidden:
  "map hide_password (sort_key u_createdAt xs) = sort_key u_createdAt (map hide_password xs)"
  by (induction xs) (simp_all add: insort_hidden)

lemma public_rows_hidden:
  "map (\<lambda>u. JObj (exclude [''password''] (user_toJSON u))) us =
   map (\<lambda>u. JObj (exclude [''password''] (user_toJSON u))) (map hide_password us)"
  by (simp add: public_user_hide)

lemma list_rows_hidden:
  assumes "map hide_password xs = map hide_password ys"
  shows "map (\<lambda>u. JObj (exclude [''password''] (user_toJSON u))) (newest_first u_createdAt xs) =
         map (\<lambda>u. JObj (exclude [''password''] (user_toJSON u))) (newest_first u_createdAt ys)"
proof -
  have "map hide_password (newest_first u_createdAt xs) = map hide_password (newest_first u_createdAt ys)"
    using assms by (simp add: newest_first_def rev_map [symmetric] sort_hidden)
  then show ?thesis
    using public_rows_hidden [of "newest_first u_createdAt xs"]
      public_rows_hidden [of "newest_first u_createdAt ys"] by simp
qed

lemma forget_users: "forget_passwords s = forget_passwords t \<Longrightarrow>
  map hide_password (users s) = map hide_password (users t) \<and> user_seq s = user_seq t"
  by (simp add: forget_passwords_def) (metis store.select_convs(1,2) store.surjective store.update_convs(1))


lemma case_hidden:
  assumes "map_option hide_password a = map_option hide_password b"
    and "\<And>u. g (hide_password u) = g u"
  shows "(case a of None \<Rightarrow> x | Some u \<Rightarrow> g u) = (case b of None \<Rightarrow> x | Some u \<Rightarrow> g u)"
proof (cases a)
  case None
  with assms(1) show ?thesis by (cases b) simp_all
next
  case (Some u)
  with assms(1) obtain v where "b = Some v" and "hide_password u = hide_password v" by (cases b) auto
  then have "g u = g v" using assms(2) [of u] assms(2) [of v] by metis
  with Some \<open>b = Some v\<close> show ?thesis by simp
qed

lemma found_hidden:
  assumes "map_option hide_password a = map_option hide_password b"
  shows "(a = None) = (b = None)"
  using assms by (cases a; cases b) simp_all

lemma lookups_hidden:
  assumes "forget_passwords s = forget_passwords t"
  shows "map_option hide_password (user_findByPk s i) = map_option hide_password (user_findByPk t i)"
    and "(user_findOne_username s n = None) = (user_findOne_username t n = None)"
    and "(user_findOne_email s e = None) = (user_findOne_email t e = None)"
proof -
  from forget_users [OF assms] have m: "map hide_password (users s) = map hide_password (users t)"
    by simp
  show "map_option hide_password (user_findByPk s i) = map_option hide_password (user_findByPk t i)"
    unfolding user_findByPk_def by (rule find_hidden [OF m]) (simp add: hide_password_def)
  have "map_option hide_password (user_findOne_username s n) =
        map_option hide_password (user_findOne_username t n)"
    unfolding user_findOne_username_def by (rule find_hidden [OF m]) (simp add: hide_password_def)
  then show "(user_findOne_username s n = None) = (user_findOne_username t n = None)"
    by (rule found_hidden)
  have "map_option hide_password (user_findOne_email s e) =
        map_option hide_password (user_findOne_email t e)"
    unfolding user_findOne_email_def by (rule find_hidden [OF m]) (simp add: hide_password_def)
  then show "(user_findOne_email s e = None) = (user_findOne_email t e = None)"
    by (rule found_hidden)
qed


lemma list_users_handler_hidden:
  assumes "forget_passwords s = forget_passwords t"
  shows "list_users_handler s = list_users_handler t"
  using list_rows_hidden [of "users s" "users t"] forget_users [OF assms]
  by (simp add: list_users_handler_def)

lemma get_user_handler_hidden:
  assumes "forget_passwords s = forget_passwords t"
  shows "get_user_handler i s = get_user_handler i t"
  unfolding get_user_handler_def
  by (rule case_hidden [OF lookups_hidden(1) [OF assms]]) (simp add: public_user_hide)

lemma me_handler_hidden:
  assumes "forget_passwords s = forget_passwords t"
  shows "me_handler req s = me_handler req t"
proof (cases "req_user req")
  case None
  then show ?thesis by (simp add: me_handler_def)
next
  case (Some c)
  have "(case user_findByPk s (c_id c) of None \<Rightarrow> fail_message 404 ''User not found''
         | Some u \<Rightarrow> send 200 (JObj [(''success'', JBool True),
             (''user'', JObj (exclude [''password''] (user_toJSON u)))])) =
        (case user_findByPk t (c_id c) of None \<Rightarrow> fail_message 404 ''User not found''
         | Some u \<Rightarrow> send 200 (JObj [(''success'', JBool True),
             (''user'', JObj (exclude [''password''] (user_toJSON u)))]))"
    by (rule case_hidden [OF lookups_hidden(1) [OF assms]]) (simp add: public_user_hide)
  with Some show ?thesis by (simp add: me_handler_def)
qed

lemma create_user_handler_hidden:
  assumes "forget_passwords s = forget_passwords t"
  shows "fst (create_user_handler isEmail hash now b s) = fst (create_user_handler isEmail hash now b t)"
  using lookups_hidden(2) [OF assms, of "field_value (cu_username b)"]
    lookups_hidden(3) [OF assms, of "field_value (cu_email b)"] forget_users [OF assms]
  by (simp add: create_user_handler_def Let_def)

lemma updated_public_hide:
  "exclude [''password''] (user_toJSON (updateData hash b (hide_password u))) =
   exclude [''password''] (user_toJSON (updateData hash b u))"
  by (simp add: exclude_def user_toJSON_def updateData_def hide_password_def split: option.splits)

lemma update_user_handler_fst:
  "fst (update_user_handler hash i b s) =
     (case user_findByPk s i of
        None \<Rightarrow> fail_message 404 ''User not found''
      | Some u \<Rightarrow>
          if truthy (uu_username b) \<and> field_value (uu_username b) \<noteq> u_username u \<and>
             user_findOne_username s (field_value (uu_username b)) \<noteq> None
          then fail_message 400 ''Username already exists''
          else if truthy (uu_email b) \<and> field_value (uu_email b) \<noteq> u_email u \<and>
             user_findOne_email s (field_value (uu_email b)) \<noteq> None
          then fail_message 400 ''Email already exists''
          else send 200 (JObj [(''success'', JBool True),
                 (''user'', JObj (exclude [''password''] (user_toJSON (updateData hash b u))))]))"
proof (cases "user_findByPk s i")
  case None
  then show ?thesis by (simp add: update_user_handler_def)
next
  case (Some u)
  show ?thesis
    unfolding update_user_handler_def Some option.case
    by (simp only: if_distrib [of fst] fst_conv)
qed



lemma hidden_fields:
  "u_username (hide_password u) = u_username u" "u_email (hide_password u) = u_email u"
  by (simp_all add: hide_password_def)

lemma update_user_handler_hidden:
  assumes "forget_passwords s = forget_passwords t"
  shows "fst (update_user_handler hash i b s) = fst (update_user_handler hash i b t)"
  unfolding update_user_handler_fst
    lookups_hidden(2) [OF assms, of "field_value (uu_username b)"]
    lookups_hidden(3) [OF assms, of "field_value (uu_email b)"]
  by (rule case_hidden [OF lookups_hidden(1) [OF assms]])
     (simp only: updated_public_hide hidden_fields)

lemma list_users_handler_no_password: "\<not> has_key ''password'' (body (list_users_handler s))"
  by (simp add: list_users_handler_def send_def users_no_password)

lemma get_user_handler_no_password: "\<not> has_key ''password'' (body (get_user_handler i s))"
  by (simp add: get_user_handler_def send_def fail_message_def public_user_no_password
      split: option.splits)

lemma me_handler_no_password: "\<not> has_key ''password'' (body (me_handler req s))"
  by (simp add: me_handler_def send_def fail_message_def server_error_def public_user_no_password
      split: option.splits)

lemma create_user_handler_no_password:
  "\<not> has_key ''password'' (body (fst (create_user_handler isEmail hash now b s)))"
  using validation_failed_no_password [of "create_user_errors isEmail b"]
  by (simp add: create_user_handler_def Let_def send_def fail_message_def public_user_no_password)

lemma update_user_handler_no_password:
  "\<not> has_key ''password'' (body (fst (update_user_handler hash i b s)))"
  by (simp add: update_user_handler_fst send_def fail_message_def public_user_no_password
      split: option.splits)

text \<open>
  C10. No response of the user routes (list, get by id, create, update) or of
  \<^verbatim>\<open>GET /api/auth/me\<close> (the route as registered, and its handler for any \<^verbatim>\<open>req.user\<close>)
  carries a \<open>password\<close> key anywhere in its body, whether it is a success, an error of the
  handler or a rejection by \<open>auth\<close> or \<open>admin\<close>; and two stores that differ only in stored
  password hashes give identical responses to the same request.
\<close>

theorem user_responses_hide_password:
  "\<not> has_key ''password'' (body (list_users jwt_verify hdr s)) \<and>
   \<not> has_key ''password'' (body (get_user jwt_verify hdr i s)) \<and>
   \<not> has_key ''password'' (body (fst (create_user jwt_verify isEmail hash now hdr cb s))) \<and>
   \<not> has_key ''password'' (body (fst (update_user jwt_verify hash hdr i ub s))) \<and>
   \<not> has_key ''password'' (body (me_handler req s)) \<and>
   \<not> has_key ''password'' (body (me hdr s)) \<and>
   (forget_passwords s = forget_passwords t \<longrightarrow>
      list_users jwt_verify hdr s = list_users jwt_verify hdr t \<and>
      get_user jwt_verify hdr i s = get_user jwt_verify hdr i t \<and>
      fst (create_user jwt_verify isEmail hash now hdr cb s) =
        fst (create_user jwt_verify isEmail hash now hdr cb t) \<and>
      fst (update_user jwt_verify hash hdr i ub s) = fst (update_user jwt_verify hash hdr i ub t) \<and>
      me_handler req s = me_handler req t \<and>
      me hdr s = me hdr t)"
proof (intro conjI impI)
  show "\<not> has_key ''password'' (body (list_users jwt_verify hdr s))"
    using gate_no_password [of jwt_verify hdr] list_users_handler_no_password [of s]
    by (simp add: list_users_def split: middleware_result.splits)
  show "\<not> has_key ''password'' (body (get_user jwt_verify hdr i s))"
    using gate_no_password [of jwt_verify hdr] get_user_handler_no_password [of i s]
    by (simp add: get_user_def split: middleware_result.splits)
  show "\<not> has_key ''password'' (body (fst (create_user jwt_verify isEmail hash now hdr cb s)))"
    using gate_no_password [of jwt_verify hdr] create_user_handler_no_password [of isEmail hash now cb s]
    by (simp add: create_user_def split: middleware_result.splits)
  show "\<not> has_key ''password'' (body (fst (update_user jwt_verify hash hdr i ub s)))"
    using gate_no_password [of jwt_verify hdr] update_user_handler_no_password [of hash i ub s]
    by (simp add: update_user_def split: middleware_result.splits)
  show "\<not> has_key ''password'' (body (me_handler req s))"
    by (rule me_handler_no_password)
  show "\<not> has_key ''password'' (body (me hdr s))"
    by (simp add: me_def me_handler_no_password)
next
  assume f: "forget_passwords s = forget_passwords t"
  show "list_users jwt_verify hdr s = list_users jwt_verify hdr t"
    using list_users_handler_hidden [OF f]
    by (simp add: list_users_def split: middleware_result.splits)
  show "get_user jwt_verify hdr i s = get_user jwt_verify hdr i t"
    using get_user_handler_hidden [OF f, of i]
    by (simp add: get_user_def split: middleware_result.splits)
  show "fst (create_user jwt_verify isEmail hash now hdr cb s) =
        fst (create_user jwt_verify isEmail hash now hdr cb t)"
    using create_user_handler_hidden [OF f, of isEmail hash now cb]
    by (simp add: create_user_def split: middleware_result.splits)
  show "fst (update_user jwt_verify hash hdr i ub s) = fst (update_user jwt_verify hash hdr i ub t)"
    using update_user_handler_hidden [OF f, of hash i ub]
    by (simp add: update_user_def split: middleware_result.splits)
  show "me_handler req s = me_handler req t"
    by (rule me_handler_hidden [OF f])
  show "me hdr s = me hdr t"
    by (simp add: me_def me_handler_hidden [OF f])
qed



theorem user_responses_hide_password_witness:
  "forget_passwords demo_store = forget_passwords demo_rehashed \<and>
   users demo_store \<noteq> users demo_rehashed \<and>
   list_users demo_verify (Some ''Bearer admin-token'') demo_store =
     list_users demo_verify (Some ''Bearer admin-token'') demo_rehashed \<and>
   get_user demo_verify (Some ''Bearer admin-token'') 1 demo_store =
     get_user demo_verify (Some ''Bearer admin-token'') 1 demo_rehashed \<and>
   fst (create_user demo_verify demo_isEmail demo_hash 500 (Some ''Bearer admin-token'') demo_new_user
          demo_store) =
     fst (create_user demo_verify demo_isEmail demo_hash 500 (Some ''Bearer admin-token'') demo_new_user
          demo_rehashed) \<and>
   fst (update_user demo_verify demo_hash (Some ''Bearer admin-token'') 1
          \<lparr>uu_username = None, uu_email = None, uu_password = Some ''newpassword'', uu_is_admin = None\<rparr>
          demo_store) =
     fst (update_user demo_verify demo_hash (Some ''Bearer admin-token'') 1
          \<lparr>uu_username = None, uu_email = None, uu_password = Some ''newpassword'', uu_is_admin = None\<rparr>
          demo_rehashed) \<and>
   \<not> has_key ''password'' (body (get_user demo_verify (Some ''Bearer admin-token'') 1 demo_store))"
proof -
  have f: "forget_passwords demo_store = forget_passwords demo_rehashed"
    by (simp add: forget_passwords_def demo_rehashed_def demo_store_def hide_password_def)
  have d: "users demo_store \<noteq> users demo_rehashed"
    by (simp add: demo_rehashed_def demo_store_def demo_admin_def)
  note t = user_responses_hide_password [where s = demo_store and t = demo_rehashed
      and jwt_verify = demo_verify and hdr = "Some ''Bearer admin-token''" and i = 1
      and isEmail = demo_isEmail and hash = demo_hash and now = 500 and cb = demo_new_user
      and ub = "\<lparr>uu_username = None, uu_email = None, uu_password = Some ''newpassword'',
                 uu_is_admin = None\<rparr>" and req = "incoming None"]
  from t f d show ?thesis by blast
qed

lemma create_user_response_example:
  "fst (create_user demo_verify demo_isEmail demo_hash 500 (Some ''Bearer admin-token'') demo_new_user
          demo_store) =
     \<lparr>status = 201, body = JObj [(''success'', JBool True),
        (''user'', JObj [(''id'', JNum 3), (''username'', JStr ''dana''),
           (''email'', JStr ''dana@example.com''), (''is_admin'', JBool False),
           (''createdAt'', JNum 500)])]\<rparr>"
  using demo_admin_passes
  by (simp add: create_user_def create_user_handler_def create_user_errors_def check_def truthy_def
      field_value_def demo_new_user_def demo_isEmail_def user_findOne_username_def
      user_findOne_email_def demo_store_def demo_admin_def demo_clerk_def Let_def send_def
      exclude_def user_toJSON_def)

end
